theory Spec2Isabelle
  imports Complex_Main "HOL-Library.Multiset" "HOL-Library.AList"
begin

chapter \<open>A shallow embedding of the thaistock-app analysis core\<close>

text \<open>
  The development embeds the pure decision logic of the Python modules
  \<^verbatim>\<open>modules/signals.py\<close>, \<^verbatim>\<open>modules/scanner.py\<close>, \<^verbatim>\<open>modules/indicators.py\<close> and
  \<^verbatim>\<open>modules/candle_analysis.py\<close>.

  Conventions.
  \<^item> A Python \<^verbatim>\<open>float\<close> is modelled by a \<^typ>\<open>real\<close>: arithmetic is exact, so binary
    rounding, overflow and infinities are outside the model. The one float that the
    source tests for explicitly, NaN, is kept: a cell that may hold NaN has type \<open>num\<close>.
  \<^item> A Python \<^verbatim>\<open>int\<close> is an \<^typ>\<open>int\<close>.
  \<^item> Network access (the market-data fetch) and the recursive smoothing of the indicator
    columns are not modelled; a function takes the values that the source reads from the
    indicator frame, each named after the line that reads it.
  \<^item> The Thai rationale texts of signals are replaced by short ASCII tags.
\<close>

section \<open>Python numerics\<close>

datatype num = Val real | NaN

text \<open>Comparison of floats: every comparison with NaN is false.\<close>

fun nlt :: "num \<Rightarrow> num \<Rightarrow> bool" where
  "nlt (Val a) (Val b) = (a < b)"
| "nlt _ _ = False"

fun nle :: "num \<Rightarrow> num \<Rightarrow> bool" where
  "nle (Val a) (Val b) = (a \<le> b)"
| "nle _ _ = False"

text \<open>Arithmetic of floats: NaN is absorbing.\<close>

fun nadd :: "num \<Rightarrow> num \<Rightarrow> num" where
  "nadd (Val a) (Val b) = Val (a + b)"
| "nadd _ _ = NaN"

fun nsub :: "num \<Rightarrow> num \<Rightarrow> num" where
  "nsub (Val a) (Val b) = Val (a - b)"
| "nsub _ _ = NaN"

fun nmul :: "num \<Rightarrow> num \<Rightarrow> num" where
  "nmul (Val a) (Val b) = Val (a * b)"
| "nmul _ _ = NaN"

text \<open>
  The builtins \<^verbatim>\<open>min(a, b)\<close> and \<^verbatim>\<open>max(a, b)\<close> keep the first argument unless the second
  compares strictly smaller (larger): with a NaN second argument the first one is returned,
  with a NaN first argument the NaN is returned.
\<close>

definition py_min :: "num \<Rightarrow> num \<Rightarrow> num" where
  "py_min a b = (if nlt b a then b else a)"

definition py_max :: "num \<Rightarrow> num \<Rightarrow> num" where
  "py_max a b = (if nlt a b then b else a)"

text \<open>
  \<^verbatim>\<open>round(x, ndigits)\<close>: to the nearest multiple of \<open>10^(-ndigits)\<close>, a tie to the even
  neighbour; \<^verbatim>\<open>round(nan, ndigits)\<close> is NaN.
\<close>

definition round_half_even :: "real \<Rightarrow> int" where
  "round_half_even x =
     (let f = \<lfloor>x\<rfloor>; d = x - of_int f
      in if d < 1 / 2 then f
         else if 1 / 2 < d then f + 1
         else if even f then f else f + 1)"

definition py_round :: "nat \<Rightarrow> real \<Rightarrow> real" where
  "py_round ndigits x = of_int (round_half_even (x * 10 ^ ndigits)) / 10 ^ ndigits"

fun nround :: "nat \<Rightarrow> num \<Rightarrow> num" where
  "nround ndigits (Val x) = Val (py_round ndigits x)"
| "nround ndigits NaN = NaN"

text \<open>\<^verbatim>\<open>int(x)\<close> on a float truncates towards zero.\<close>

definition py_int :: "real \<Rightarrow> int" where
  "py_int x = (if 0 \<le> x then \<lfloor>x\<rfloor> else \<lceil>x\<rceil>)"

text \<open>\<^verbatim>\<open>pd.isna\<close>.\<close>

fun isna :: "num \<Rightarrow> bool" where
  "isna NaN = True"
| "isna (Val _) = False"

section \<open>Signals\<close>

text \<open>The values of the keys \<^verbatim>\<open>"type"\<close> and \<^verbatim>\<open>"strength"\<close> of a signal or pattern.\<close>

datatype signal_type = BUY | SELL | NEUTRAL

datatype strength = WEAK | MEDIUM | STRONG

section \<open>Support and resistance (\<^verbatim>\<open>modules/indicators.py\<close>)\<close>

datatype py_error = IndexError | KeyError | ValueError

text \<open>
  \<^verbatim>\<open>scipy.signal.argrelextrema(data, comparator, order)\<close> with its default
  \<^verbatim>\<open>mode='clip'\<close>: index \<open>i\<close> is kept when \<open>data[i]\<close> compares true against the entries
  \<open>1, \<dots>, order\<close> places to either side, an index beyond an end of the array being
  clipped to that end. The library is not part of the repository; this is its documented
  behaviour. An \<open>order\<close> below 1 makes it raise \<^verbatim>\<open>ValueError\<close>.
\<close>

definition clip_index :: "nat \<Rightarrow> int \<Rightarrow> nat" where
  "clip_index n k = nat (max 0 (min (int n - 1) k))"

definition argrelextrema :: "real list \<Rightarrow> (real \<Rightarrow> real \<Rightarrow> bool) \<Rightarrow> nat \<Rightarrow> py_error + nat list" where
  "argrelextrema data comparator order =
     (if order < 1 then Inl ValueError
      else Inr (filter
        (\<lambda>i. list_all
           (\<lambda>shift. comparator (data ! i) (data ! clip_index (length data) (int i + int shift))
                  \<and> comparator (data ! i) (data ! clip_index (length data) (int i - int shift)))
           [1..<Suc order])
        [0..<length data]))"

text \<open>\<^verbatim>\<open>float(np.mean(group))\<close> of a non-empty group.\<close>

definition mean :: "real list \<Rightarrow> real" where
  "mean xs = sum_list xs / real (length xs)"

text \<open>
  The loop of \<^verbatim>\<open>cluster_levels\<close> (lines 131--138) with its two accumulators; the last
  equation is line 138, after the loop.
\<close>

fun cluster_loop :: "real \<Rightarrow> real list \<Rightarrow> real list \<Rightarrow> real list \<Rightarrow> real list" where
  "cluster_loop threshold clustered grp [] = clustered @ [mean grp]"
| "cluster_loop threshold clustered grp (lv # lvs) =
     (if \<bar>lv - last grp\<bar> / max (last grp) (1 / 10 ^ 9) \<le> threshold
      then cluster_loop threshold clustered (grp @ [lv]) lvs
      else cluster_loop threshold (clustered @ [mean grp]) [lv] lvs)"

definition cluster_levels :: "real list \<Rightarrow> real \<Rightarrow> real list" where
  "cluster_levels levels threshold =
     (case levels of [] \<Rightarrow> [] | lv # lvs \<Rightarrow> cluster_loop threshold [] [lv] lvs)"

text \<open>\<^verbatim>\<open>sorted(set(xs))\<close>: the distinct values in ascending order.\<close>

definition sorted_set :: "real list \<Rightarrow> real list" where
  "sorted_set xs = sort (remdups xs)"

text \<open>
  \<^verbatim>\<open>find_support_resistance(df, window)\<close> on the Close column. \<^verbatim>\<open>closes[-1]\<close> raises
  \<^verbatim>\<open>IndexError\<close> on an empty column, outside the \<^verbatim>\<open>try\<close>; an exception of
  \<^verbatim>\<open>argrelextrema\<close> is caught and gives two empty lists. \<^verbatim>\<open>sorted\<close> with a key is stable,
  as \<^const>\<open>sort_key\<close> is.
\<close>

definition find_support_resistance :: "real list \<Rightarrow> nat \<Rightarrow> py_error + (real list \<times> real list)" where
  "find_support_resistance closes window =
     (if closes = [] then Inl IndexError
      else
        let cur = last closes in
        case (argrelextrema closes (\<le>) window, argrelextrema closes (\<ge>) window) of
          (Inr local_min_idx, Inr local_max_idx) \<Rightarrow>
            let supports = cluster_levels (sorted_set (map ((!) closes) local_min_idx)) 0.01;
                resistances = cluster_levels (sorted_set (map ((!) closes) local_max_idx)) 0.01;
                supports' = sort_key (\<lambda>x. \<bar>x - cur\<bar>) (filter (\<lambda>s. s < cur * 1.02) supports);
                resistances' = sort_key (\<lambda>x. \<bar>x - cur\<bar>) (filter (\<lambda>r. r > cur * 0.98) resistances)
            in Inr (take 7 supports', take 7 resistances')
        | _ \<Rightarrow> Inr ([], []))"




section \<open>Target calculator (\<^verbatim>\<open>calculate_price_targets\<close>, \<^verbatim>\<open>modules/signals.py\<close>)\<close>

text \<open>
  The columns of the frame that \<^verbatim>\<open>calculate_price_targets\<close> reads. \<open>pf_atr\<close> is the last
  cell of the ATR column, \<open>None\<close> when the frame has no such column.
\<close>

record price_frame =
  pf_close :: "real list"
  pf_high :: "real list"
  pf_low :: "real list"
  pf_atr :: "num option"

fun ndiv :: "num \<Rightarrow> num \<Rightarrow> num" where
  "ndiv (Val a) (Val b) = Val (a / b)"
| "ndiv _ _ = NaN"

fun nabs :: "num \<Rightarrow> num" where
  "nabs (Val a) = Val \<bar>a\<bar>"
| "nabs NaN = NaN"

text \<open>
  \<^verbatim>\<open>series.rolling(60).max().iloc[-1]\<close> and its \<^verbatim>\<open>min\<close> twin: NaN while the column has
  fewer rows than the window.
\<close>

definition rolling_max_last :: "nat \<Rightarrow> real list \<Rightarrow> num" where
  "rolling_max_last w xs =
     (if w \<le> length xs \<and> 0 < w
      then (let ys = drop (length xs - w) xs in Val (fold max (tl ys) (hd ys)))
      else NaN)"

definition rolling_min_last :: "nat \<Rightarrow> real list \<Rightarrow> num" where
  "rolling_min_last w xs =
     (if w \<le> length xs \<and> 0 < w
      then (let ys = drop (length xs - w) xs in Val (fold min (tl ys) (hd ys)))
      else NaN)"

text \<open>Line 296: the ATR that is used, two percent of the price when the cell is missing or NaN.\<close>

definition effective_atr :: "price_frame \<Rightarrow> real \<Rightarrow> real" where
  "effective_atr df current_price =
     (case pf_atr df of Some (Val a) \<Rightarrow> a | _ \<Rightarrow> current_price * 0.02)"

record targets =
  buy_low :: num
  buy_high :: num
  tg_stop_loss :: num
  tp1 :: num
  tp2 :: num
  tp3 :: num
  trailing_stop :: num
  risk_amount_pct :: num
  risk_reward :: num
  fibonacci :: "num list"
  support_levels :: "real list"
  resistance_levels :: "real list"

text \<open>
  \<^verbatim>\<open>calculate_price_targets(df, current_price)\<close>, lines 291--349. The dictionary
  \<^verbatim>\<open>fibonacci\<close> is the list of its seven values in key order; the fifth is the 0.618 level.
\<close>

definition calculate_price_targets :: "price_frame \<Rightarrow> real \<Rightarrow> py_error + targets" where
  "calculate_price_targets df current_price =
     (case find_support_resistance (pf_close df) 10 of
        Inl e \<Rightarrow> Inl e
      | Inr (supports, resistances) \<Rightarrow>
          let a = effective_atr df current_price;
              period_high = rolling_max_last 60 (pf_high df);
              period_low = rolling_min_last 60 (pf_low df);
              fib_range = nsub period_high period_low;
              fib = (\<lambda>r. nround 2 (nadd period_low (nmul fib_range (Val r))));
              fib_618 = fib 0.618;
              nearest_sup = (if supports \<noteq> [] then hd supports else current_price * 0.95);
              b_low = nround 2 (nmul (py_min (Val nearest_sup) fib_618) (Val 0.99));
              b_high = nround 2 (nmul (py_max (Val nearest_sup) fib_618) (Val 1.01));
              stop = nround 2 (nsub b_low (Val (a * 1.5)));
              risk_amount = nsub (Val current_price) stop;
              risk_pct = (if current_price > 0
                          then nmul (ndiv risk_amount (Val current_price)) (Val 100) else Val 5.0);
              t1 = nround 2 (nadd (Val current_price) (nmul risk_amount (Val 2)));
              t2 = nround 2 (nadd (Val current_price) (nmul risk_amount (Val 3)));
              t3 = (if resistances \<noteq> [] then Val (py_round 2 (hd resistances))
                    else nround 2 (nadd (Val current_price) (nmul risk_amount (Val 4))));
              rr = (if nlt (Val 0) (nsub t1 (Val current_price))
                    then ndiv risk_amount (nsub t1 (Val current_price)) else Val 0.5)
          in Inr \<lparr> buy_low = b_low, buy_high = b_high, tg_stop_loss = stop,
                   tp1 = t1, tp2 = t2, tp3 = t3,
                   trailing_stop = Val (py_round 2 (current_price - a * 2)),
                   risk_amount_pct = nround 2 (nabs risk_pct),
                   risk_reward = nround 3 rr,
                   fibonacci = [nround 2 period_low, fib 0.236, fib 0.382, fib 0.500, fib 0.618,
                                fib 0.786, nround 2 period_high],
                   support_levels = map (py_round 2) supports,
                   resistance_levels = map (py_round 2) resistances \<rparr>)"

text \<open>
  Concrete frames. \<open>rising_frame\<close> has three rising bars and an ATR cell still in its
  warm-up; \<open>penny_frame\<close> is a rising low-priced stock whose bars have no range.
\<close>

definition rising_frame :: price_frame where
  "rising_frame = \<lparr> pf_close = [100, 106, 112], pf_high = [100.5, 106.5, 112.5],
      pf_low = [99.5, 105.5, 111.5], pf_atr = Some NaN \<rparr>"

definition penny_frame :: price_frame where
  "penny_frame = \<lparr> pf_close = [0.100, 0.107, 0.114], pf_high = [0.100, 0.107, 0.114],
      pf_low = [0.100, 0.107, 0.114], pf_atr = Some (Val 0.001) \<rparr>"

section \<open>Candlestick patterns (\<^verbatim>\<open>detect_patterns_full\<close>, \<^verbatim>\<open>modules/candle_analysis.py\<close>)\<close>

text \<open>One row of the OHLCV frame; its cells are finite.\<close>

record candle =
  c_open :: real
  c_high :: real
  c_low :: real
  c_close :: real
  c_volume :: real

text \<open>The helpers of lines 21--41.\<close>

definition body :: "candle \<Rightarrow> real" where
  "body c = \<bar>c_close c - c_open c\<bar>"

definition upper_wick :: "candle \<Rightarrow> real" where
  "upper_wick c = c_high c - max (c_close c) (c_open c)"

definition lower_wick :: "candle \<Rightarrow> real" where
  "lower_wick c = min (c_close c) (c_open c) - c_low c"

definition candle_range :: "candle \<Rightarrow> real" where
  "candle_range c = max (c_high c - c_low c) (1 / 10 ^ 9)"

definition is_bull :: "candle \<Rightarrow> bool" where
  "is_bull c \<longleftrightarrow> c_close c > c_open c"

definition is_bear :: "candle \<Rightarrow> bool" where
  "is_bear c \<longleftrightarrow> c_close c < c_open c"

definition body_pct :: "candle \<Rightarrow> real" where
  "body_pct c = body c / candle_range c"

text \<open>
  A detected pattern. The keys \<^verbatim>\<open>date\<close>, \<^verbatim>\<open>description\<close>, \<^verbatim>\<open>tip\<close> and \<^verbatim>\<open>emoji\<close> hold
  display text and are left out.
\<close>

record pattern =
  p_pattern :: string
  p_type :: signal_type
  p_strength :: strength
  p_confidence :: int
  p_bar_index :: nat
  p_price :: real

text \<open>
  The frame: its rows, and whether it has a Volume column (lines 59 and 73 test for it).
\<close>

record candle_frame =
  cf_bars :: "candle list"
  cf_has_volume :: bool

text \<open>\<^verbatim>\<open>get_candle(i)\<close>, lines 61--64: the \<open>i\<close>-th row from the end, \<^verbatim>\<open>None\<close> beyond the start.\<close>

definition get_candle :: "candle list \<Rightarrow> nat \<Rightarrow> candle option" where
  "get_candle bars i = (if i < length bars then Some (bars ! (length bars - 1 - i)) else None)"

text \<open>\<^verbatim>\<open>df.iloc[-n:]\<close> for \<open>n > 0\<close>: the last \<open>n\<close> rows, all rows when there are fewer.\<close>

definition last_rows :: "nat \<Rightarrow> 'a list \<Rightarrow> 'a list" where
  "last_rows n xs = drop (length xs - n) xs"

text \<open>
  The fifteen rules, lines 75--354, each as the list of patterns it appends. The
  arguments are the three latest candles, the averages computed in lines 56--59, the
  volume of the latest candle and the index of the last bar.
\<close>

definition long_green :: "candle \<Rightarrow> real \<Rightarrow> real \<Rightarrow> real \<Rightarrow> nat \<Rightarrow> pattern list" where
  "long_green c0 avg_body avg_vol vol0 idx =
     (if is_bull c0 \<and> body c0 > avg_body * 1.5 \<and> body_pct c0 > 0.6 then
        let conf = min 100 (60 + py_int ((body_pct c0 - 0.6) * 100));
            conf = (if vol0 > avg_vol * 1.2 then min 100 (conf + 15) else conf)
        in [\<lparr> p_pattern = ''Long Green Candle'', p_type = BUY,
               p_strength = (if conf \<ge> 75 then STRONG else MEDIUM),
               p_confidence = conf, p_bar_index = idx, p_price = c_close c0 \<rparr>]
      else [])"

definition long_red :: "candle \<Rightarrow> real \<Rightarrow> real \<Rightarrow> real \<Rightarrow> nat \<Rightarrow> pattern list" where
  "long_red c0 avg_body avg_vol vol0 idx =
     (if is_bear c0 \<and> body c0 > avg_body * 1.5 \<and> body_pct c0 > 0.6 then
        let conf = min 100 (60 + py_int ((body_pct c0 - 0.6) * 100));
            conf = (if vol0 > avg_vol * 1.2 then min 100 (conf + 15) else conf)
        in [\<lparr> p_pattern = ''Long Red Candle'', p_type = SELL,
               p_strength = (if conf \<ge> 75 then STRONG else MEDIUM),
               p_confidence = conf, p_bar_index = idx, p_price = c_close c0 \<rparr>]
      else [])"

definition hammer :: "candle \<Rightarrow> candle \<Rightarrow> nat \<Rightarrow> pattern list" where
  "hammer c0 c1 idx =
     (let lw = lower_wick c0; uw = upper_wick c0; b = body c0 in
      if lw > b * 2.0 \<and> uw < b * 0.5 \<and> body_pct c0 < 0.35 then
        let prior_down = (c_close c1 < c_open c1);
            conf = 55 + (if prior_down then 20 else 0) + (if is_bull c0 then 10 else 0)
        in [\<lparr> p_pattern = ''Hammer'', p_type = BUY,
               p_strength = (if prior_down then STRONG else MEDIUM),
               p_confidence = min 100 conf, p_bar_index = idx, p_price = c_close c0 \<rparr>]
      else [])"

definition shooting_star :: "candle \<Rightarrow> candle \<Rightarrow> nat \<Rightarrow> pattern list" where
  "shooting_star c0 c1 idx =
     (let lw = lower_wick c0; uw = upper_wick c0; b = body c0 in
      if uw > b * 2.0 \<and> lw < b * 0.5 \<and> body_pct c0 < 0.35 then
        let prior_up = (c_close c1 > c_open c1);
            conf = 55 + (if prior_up then 20 else 0) + (if is_bear c0 then 10 else 0)
        in [\<lparr> p_pattern = ''Shooting Star'', p_type = SELL,
               p_strength = (if prior_up then STRONG else MEDIUM),
               p_confidence = min 100 conf, p_bar_index = idx, p_price = c_high c0 \<rparr>]
      else [])"

definition inverted_hammer :: "candle \<Rightarrow> candle \<Rightarrow> nat \<Rightarrow> pattern list" where
  "inverted_hammer c0 c1 idx =
     (let lw = lower_wick c0; uw = upper_wick c0; b = body c0 in
      if uw > b * 2.0 \<and> lw < b * 0.5 \<and> is_bear c1 then
        [\<lparr> p_pattern = ''Inverted Hammer'', p_type = BUY, p_strength = WEAK,
            p_confidence = 50, p_bar_index = idx, p_price = c_close c0 \<rparr>]
      else [])"

definition bullish_engulfing :: "candle \<Rightarrow> candle \<Rightarrow> real \<Rightarrow> real \<Rightarrow> nat \<Rightarrow> pattern list" where
  "bullish_engulfing c0 c1 avg_vol vol0 idx =
     (if is_bear c1 \<and> is_bull c0 \<and> c_open c0 \<le> c_close c1 \<and> c_close c0 \<ge> c_open c1 then
        let size_ratio = body c0 / max (body c1) (1 / 10 ^ 9);
            conf = min 100 (65 + py_int ((size_ratio - 1) * 20));
            conf = (if vol0 > avg_vol * 1.3 then min 100 (conf + 10) else conf)
        in [\<lparr> p_pattern = ''Bullish Engulfing'', p_type = BUY, p_strength = STRONG,
               p_confidence = conf, p_bar_index = idx, p_price = c_close c0 \<rparr>]
      else [])"

definition bearish_engulfing :: "candle \<Rightarrow> candle \<Rightarrow> real \<Rightarrow> real \<Rightarrow> nat \<Rightarrow> pattern list" where
  "bearish_engulfing c0 c1 avg_vol vol0 idx =
     (if is_bull c1 \<and> is_bear c0 \<and> c_open c0 \<ge> c_close c1 \<and> c_close c0 \<le> c_open c1 then
        let size_ratio = body c0 / max (body c1) (1 / 10 ^ 9);
            conf = min 100 (65 + py_int ((size_ratio - 1) * 20));
            conf = (if vol0 > avg_vol * 1.3 then min 100 (conf + 10) else conf)
        in [\<lparr> p_pattern = ''Bearish Engulfing'', p_type = SELL, p_strength = STRONG,
               p_confidence = conf, p_bar_index = idx, p_price = c_close c0 \<rparr>]
      else [])"

definition morning_star :: "candle \<Rightarrow> candle \<Rightarrow> candle \<Rightarrow> real \<Rightarrow> real \<Rightarrow> nat \<Rightarrow> pattern list" where
  "morning_star c0 c1 c2 avg_vol vol0 idx =
     (if is_bear c2 \<and> body c1 < body c2 * 0.35 \<and> is_bull c0
         \<and> c_close c0 > (c_open c2 + c_close c2) / 2 then
        let conf = 75 + (if vol0 > avg_vol then 10 else 0)
        in [\<lparr> p_pattern = ''Morning Star'', p_type = BUY, p_strength = STRONG,
               p_confidence = min 100 conf, p_bar_index = idx, p_price = c_close c0 \<rparr>]
      else [])"

definition evening_star :: "candle \<Rightarrow> candle \<Rightarrow> candle \<Rightarrow> real \<Rightarrow> real \<Rightarrow> nat \<Rightarrow> pattern list" where
  "evening_star c0 c1 c2 avg_vol vol0 idx =
     (if is_bull c2 \<and> body c1 < body c2 * 0.35 \<and> is_bear c0
         \<and> c_close c0 < (c_open c2 + c_close c2) / 2 then
        let conf = 75 + (if vol0 > avg_vol then 10 else 0)
        in [\<lparr> p_pattern = ''Evening Star'', p_type = SELL, p_strength = STRONG,
               p_confidence = min 100 conf, p_bar_index = idx, p_price = c_close c0 \<rparr>]
      else [])"

definition doji :: "candle \<Rightarrow> candle option \<Rightarrow> real \<Rightarrow> nat \<Rightarrow> pattern list" where
  "doji c0 c1 avg_body idx =
     (if body_pct c0 < 0.08 then
        let after_up = (case c1 of None \<Rightarrow> False | Some c \<Rightarrow> is_bull c \<and> body c > avg_body);
            after_down = (case c1 of None \<Rightarrow> False | Some c \<Rightarrow> is_bear c \<and> body c > avg_body);
            sig_type = (if after_up then SELL else if after_down then BUY else NEUTRAL);
            conf = (if sig_type \<noteq> NEUTRAL then 60 else 40)
        in [\<lparr> p_pattern = ''Doji'', p_type = sig_type,
               p_strength = (if sig_type \<noteq> NEUTRAL then MEDIUM else WEAK),
               p_confidence = conf, p_bar_index = idx, p_price = c_close c0 \<rparr>]
      else [])"

definition three_white_soldiers :: "candle \<Rightarrow> candle \<Rightarrow> candle \<Rightarrow> real \<Rightarrow> nat \<Rightarrow> pattern list" where
  "three_white_soldiers c0 c1 c2 avg_body idx =
     (if is_bull c0 \<and> is_bull c1 \<and> is_bull c2
         \<and> body c0 > avg_body * 0.8 \<and> body c1 > avg_body * 0.8
         \<and> c_close c0 > c_close c1 \<and> c_close c1 > c_close c2 then
        [\<lparr> p_pattern = ''Three White Soldiers'', p_type = BUY, p_strength = STRONG,
            p_confidence = 82, p_bar_index = idx, p_price = c_close c0 \<rparr>]
      else [])"

definition three_black_crows :: "candle \<Rightarrow> candle \<Rightarrow> candle \<Rightarrow> real \<Rightarrow> nat \<Rightarrow> pattern list" where
  "three_black_crows c0 c1 c2 avg_body idx =
     (if is_bear c0 \<and> is_bear c1 \<and> is_bear c2
         \<and> body c0 > avg_body * 0.8 \<and> body c1 > avg_body * 0.8
         \<and> c_close c0 < c_close c1 \<and> c_close c1 < c_close c2 then
        [\<lparr> p_pattern = ''Three Black Crows'', p_type = SELL, p_strength = STRONG,
            p_confidence = 82, p_bar_index = idx, p_price = c_close c0 \<rparr>]
      else [])"

text \<open>
  Rule 13 reads the five closes before the last one, \<^verbatim>\<open>df['Close'].iloc[-6:-1]\<close>, when the
  frame has six rows.
\<close>

definition long_upper_shadow :: "candle list \<Rightarrow> candle \<Rightarrow> real \<Rightarrow> nat \<Rightarrow> pattern list" where
  "long_upper_shadow bars c0 avg_range idx =
     (let uw = upper_wick c0 in
      if uw > body c0 * 2.5 \<and> uw > avg_range * 0.4 then
        if length bars \<ge> 6 then
          let prev5 = mean (map c_close (butlast (last_rows 6 bars))) in
          if c_close c0 > prev5 then
            [\<lparr> p_pattern = ''Long Upper Shadow'', p_type = SELL, p_strength = MEDIUM,
                p_confidence = 58, p_bar_index = idx, p_price = c_high c0 \<rparr>]
          else []
        else []
      else [])"

definition tweezer_top :: "candle \<Rightarrow> candle \<Rightarrow> nat \<Rightarrow> pattern list" where
  "tweezer_top c0 c1 idx =
     (let hi_diff = \<bar>c_high c0 - c_high c1\<bar> / max (c_high c1) (1 / 10 ^ 9) in
      if hi_diff < 0.003 \<and> is_bull c1 \<and> is_bear c0 then
        [\<lparr> p_pattern = ''Tweezer Top'', p_type = SELL, p_strength = MEDIUM,
            p_confidence = 65, p_bar_index = idx, p_price = c_high c0 \<rparr>]
      else [])"

definition tweezer_bottom :: "candle \<Rightarrow> candle \<Rightarrow> nat \<Rightarrow> pattern list" where
  "tweezer_bottom c0 c1 idx =
     (let lo_diff = \<bar>c_low c0 - c_low c1\<bar> / max (c_low c1) (1 / 10 ^ 9) in
      if lo_diff < 0.003 \<and> is_bear c1 \<and> is_bull c0 then
        [\<lparr> p_pattern = ''Tweezer Bottom'', p_type = BUY, p_strength = MEDIUM,
            p_confidence = 65, p_bar_index = idx, p_price = c_low c0 \<rparr>]
      else [])"

text \<open>
  \<^verbatim>\<open>detect_patterns_full(df)\<close>. With three rows or more the candles \<open>c0\<close>, \<open>c1\<close>, \<open>c2\<close>
  exist, so the tests \<^verbatim>\<open>is not None\<close> on them hold; \<open>c3\<close> and \<open>c4\<close> are read by no
  rule. The result is sorted by descending confidence, \<^verbatim>\<open>sorted\<close> with
  \<^verbatim>\<open>reverse=True\<close> keeping the order of equal elements.
\<close>

definition detect_patterns_full :: "candle_frame \<Rightarrow> pattern list" where
  "detect_patterns_full df =
     (let bars = cf_bars df in
      if length bars < 3 then []
      else
        case (get_candle bars 0, get_candle bars 1, get_candle bars 2) of
          (Some c0, Some c1, Some c2) \<Rightarrow>
            let recent = (if length bars \<ge> 20 then last_rows 20 bars else bars);
                avg_body = mean (map body recent);
                avg_range = mean (map candle_range recent);
                avg_vol = (if cf_has_volume df then mean (map c_volume (last_rows 20 bars)) else 1);
                vol0 = (if cf_has_volume df then c_volume c0 else avg_vol);
                idx = length bars - 1;
                found = long_green c0 avg_body avg_vol vol0 idx
                      @ long_red c0 avg_body avg_vol vol0 idx
                      @ hammer c0 c1 idx
                      @ shooting_star c0 c1 idx
                      @ inverted_hammer c0 c1 idx
                      @ bullish_engulfing c0 c1 avg_vol vol0 idx
                      @ bearish_engulfing c0 c1 avg_vol vol0 idx
                      @ morning_star c0 c1 c2 avg_vol vol0 idx
                      @ evening_star c0 c1 c2 avg_vol vol0 idx
                      @ doji c0 (Some c1) avg_body idx
                      @ three_white_soldiers c0 c1 c2 avg_body idx
                      @ three_black_crows c0 c1 c2 avg_body idx
                      @ long_upper_shadow bars c0 avg_range idx
                      @ tweezer_top c0 c1 idx
                      @ tweezer_bottom c0 c1 idx
            in sort_key (\<lambda>p. - p_confidence p) found
        | _ \<Rightarrow> [])"

text \<open>The range of confidence values.\<close>

definition conf_ok :: "pattern \<Rightarrow> bool" where
  "conf_ok p \<longleftrightarrow> 40 \<le> p_confidence p \<and> p_confidence p \<le> 100"

text \<open>
  A frame of three bars whose last bar has next to no body, after a bar without direction.
\<close>

definition doji_frame :: candle_frame where
  "doji_frame = \<lparr> cf_bars =
      [\<lparr> c_open = 10, c_high = 10.5, c_low = 9.5, c_close = 10.2, c_volume = 1000 \<rparr>,
       \<lparr> c_open = 10.2, c_high = 10.6, c_low = 10, c_close = 10.2, c_volume = 1000 \<rparr>,
       \<lparr> c_open = 10.2, c_high = 10.7, c_low = 9.7, c_close = 10.21, c_volume = 1000 \<rparr>],
      cf_has_volume = True \<rparr>"

text \<open>A frame of three rising bars, the last one long and on high volume.\<close>

definition rally_frame :: candle_frame where
  "rally_frame = \<lparr> cf_bars =
      [\<lparr> c_open = 10, c_high = 10.3, c_low = 9.9, c_close = 10.2, c_volume = 1000 \<rparr>,
       \<lparr> c_open = 10.2, c_high = 10.5, c_low = 10.1, c_close = 10.4, c_volume = 1000 \<rparr>,
       \<lparr> c_open = 10.4, c_high = 11.5, c_low = 10.4, c_close = 11.5, c_volume = 4000 \<rparr>],
      cf_has_volume = True \<rparr>"

section \<open>Bell curve analysis (\<^verbatim>\<open>analyze_bell_curve\<close>, \<^verbatim>\<open>modules/candle_analysis.py\<close>)\<close>

datatype bell_regime = STRETCHED_EXTREME | STRETCHED_HIGH | STRETCHED | NORMAL | COMPRESSED

text \<open>
  The keys of the returned dictionary that the lookup of lines 405--425 decides, with the
  statistics they derive from. \<open>bs_z_score\<close> is \<^verbatim>\<open>round(z_score, 3)\<close> and
  \<open>bs_reversion_prob\<close> is \<^verbatim>\<open>round(rev_prob * 100, 1)\<close> (line 457). The remaining keys
  (percentile, return distribution, Bollinger position, the series for the charts) are
  computed without raising and are left out.
\<close>

record bell_stats =
  bs_current :: real
  bs_mean :: real
  bs_std :: num
  bs_z_score :: num
  bs_regime :: bell_regime
  bs_reversion_prob :: real
  bs_window :: int

text \<open>\<^verbatim>\<open>series.dropna()\<close> on a column whose cells may be NaN.\<close>

fun dropna :: "num list \<Rightarrow> real list" where
  "dropna [] = []"
| "dropna (Val x # xs) = x # dropna xs"
| "dropna (NaN # xs) = dropna xs"

text \<open>
  \<^verbatim>\<open>xs.iloc[-n:]\<close> for an integer \<open>n\<close> that is at most the length: the last \<open>n\<close> rows for
  \<open>n > 0\<close>; for \<open>n = 0\<close> the slice starts at \<open>-0 = 0\<close> and is the whole series; for
  \<open>n < 0\<close> it starts at the positive index \<open>-n\<close>.
\<close>

definition tail_slice :: "int \<Rightarrow> 'a list \<Rightarrow> 'a list" where
  "tail_slice n xs = (if n > 0 then drop (length xs - nat n) xs else drop (nat (- n)) xs)"

text \<open>
  \<^verbatim>\<open>series.std()\<close>, the sample standard deviation (\<open>ddof = 1\<close>): NaN for fewer than two
  values.
\<close>

definition sample_std :: "real list \<Rightarrow> num" where
  "sample_std xs =
     (if length xs \<le> 1 then NaN
      else Val (sqrt (sum_list (map (\<lambda>x. (x - mean xs) ^ 2) xs) / (real (length xs) - 1))))"

text \<open>Lines 377--379: the closes of the trailing window.\<close>

definition window_closes :: "num list \<Rightarrow> int \<Rightarrow> real list" where
  "window_closes close_column window =
     (let closes = dropna close_column;
          n = min window (int (length closes))
      in tail_slice n closes)"

text \<open>Line 388, \<^verbatim>\<open>z_score = (current - mean) / std\<close>, for a window that is not empty.\<close>

definition window_z :: "num list \<Rightarrow> int \<Rightarrow> num" where
  "window_z close_column window =
     (let recent = window_closes close_column window
      in ndiv (Val (last recent - mean recent)) (sample_std recent))"

text \<open>Lines 405--425: the lookup, as the pair of \<^verbatim>\<open>rev_prob\<close> and \<^verbatim>\<open>regime\<close>.\<close>

definition reversion_lookup :: "num \<Rightarrow> real \<times> bell_regime" where
  "reversion_lookup abs_z =
     (if nlt (Val 2.5) abs_z then (0.85, STRETCHED_EXTREME)
      else if nlt (Val 2.0) abs_z then (0.75, STRETCHED_HIGH)
      else if nlt (Val 1.5) abs_z then (0.62, STRETCHED)
      else if nlt (Val 1.0) abs_z then (0.48, NORMAL)
      else (0.35, COMPRESSED))"

text \<open>
  \<^verbatim>\<open>analyze_bell_curve(df, window)\<close> on the Close column of the frame. \<open>Inr None\<close> is the
  empty dictionary. \<^verbatim>\<open>recent.iloc[-1]\<close> raises \<^verbatim>\<open>IndexError\<close> when no close is left in
  the window. \<^verbatim>\<open>std == 0\<close> is false for a NaN.
\<close>

definition analyze_bell_curve :: "num list \<Rightarrow> int \<Rightarrow> py_error + bell_stats option" where
  "analyze_bell_curve close_column window =
     (if length close_column < 20 then Inr None
      else
        let closes = dropna close_column;
            n = min window (int (length closes));
            recent = tail_slice n closes
        in if recent = [] then Inl IndexError
           else
             let cur = last recent;
                 m = mean recent;
                 sd = sample_std recent
             in if sd = Val 0 then Inr None
                else
                  let z_score = ndiv (Val (cur - m)) sd;
                      abs_z = nabs z_score;
                      rev_prob = fst (reversion_lookup abs_z);
                      regime = snd (reversion_lookup abs_z)
                  in Inr (Some \<lparr> bs_current = cur, bs_mean = m, bs_std = sd,
                                 bs_z_score = nround 3 z_score, bs_regime = regime,
                                 bs_reversion_prob = py_round 1 (rev_prob * 100),
                                 bs_window = n \<rparr>))"

text \<open>
  Frames: twenty equal closes; twenty closes of which the last one jumps (with a window
  of 9 the standard deviation is 1); and a frame of nineteen rows.
\<close>

definition flat_closes :: "num list" where
  "flat_closes = replicate 20 (Val 10)"

definition spike_closes :: "num list" where
  "spike_closes = replicate 19 (Val 10) @ [Val 13]"

definition short_closes :: "num list" where
  "short_closes = map (\<lambda>k. Val (real k)) [1..<20]"

section \<open>Fibonacci scanner: zone and stop-loss (\<^verbatim>\<open>modules/scanner.py\<close>)\<close>

text \<open>
  The six retracement zones, in the order the loops of \<^verbatim>\<open>_scan_one\<close> (line 91) and
  \<^verbatim>\<open>_scan_intraday\<close> (line 574) scan them.
\<close>

definition fib_zones :: "(real \<times> real) list" where
  "fib_zones = [(0.0, 0.236), (0.236, 0.382), (0.382, 0.5), (0.5, 0.618), (0.618, 0.786), (0.786, 1.0)]"

text \<open>\<^verbatim>\<open>def fp(r): return base + direction * fib_range * r\<close>\<close>

definition fp :: "real \<Rightarrow> real \<Rightarrow> real \<Rightarrow> real \<Rightarrow> real" where
  "fp base direction fib_range r = base + direction * fib_range * r"

text \<open>The test \<^verbatim>\<open>lo <= current <= hi\<close> of one loop iteration.\<close>

definition in_zone :: "real \<Rightarrow> real \<Rightarrow> real \<Rightarrow> real \<Rightarrow> real \<times> real \<Rightarrow> bool" where
  "in_zone base direction fib_range current z =
     (let p0 = fp base direction fib_range (fst z);
          p1 = fp base direction fib_range (snd z);
          lo = min p0 p1;
          hi = max p0 p1
      in lo \<le> current \<and> current \<le> hi)"

text \<open>The loop with its \<^verbatim>\<open>break\<close>: the first zone that matches, \<open>None\<close> when none does.\<close>

fun zone_scan :: "real \<Rightarrow> real \<Rightarrow> real \<Rightarrow> real \<Rightarrow> (real \<times> real) list \<Rightarrow> (real \<times> real) option" where
  "zone_scan base direction fib_range current [] = None"
| "zone_scan base direction fib_range current (z # zs) =
     (if in_zone base direction fib_range current z then Some z
      else zone_scan base direction fib_range current zs)"

text \<open>
  Lines 81--100 and 566--581: base and direction from the trend, then the scan.
\<close>

definition locate_zone :: "real \<Rightarrow> real \<Rightarrow> real \<Rightarrow> bool \<Rightarrow> (real \<times> real) option" where
  "locate_zone current swing_high swing_low is_uptrend =
     (let fib_range = swing_high - swing_low;
          base = (if is_uptrend then swing_low else swing_high);
          direction = (if is_uptrend then 1 else -1)
      in zone_scan base direction fib_range current fib_zones)"



text \<open>
  The values \<^verbatim>\<open>_scan_one\<close> reads from the indicator frame: the last close (line 59), the
  extremes of the High and Low columns (lines 64--65), the last and the tenth-last EMA50
  (lines 72--73) and the last ATR (line 118). OHLC cells are finite; EMA50 and ATR are
  indicator cells. The frame comes from \<^verbatim>\<open>add_all_indicators\<close> and has at least 15
  rows here, so the \<^verbatim>\<open>else\<close> of line 75 is not reached. The loop of lines 121--122
  assigns to its own variable only, so a NaN ATR stays NaN.
\<close>

record scan_frame =
  sf_current :: real
  sf_swing_high :: real
  sf_swing_low :: real
  sf_ema_now :: num
  sf_ema_prev :: num
  sf_atr :: num

record scan_levels =
  lv_is_uptrend :: bool
  lv_zone :: "(real \<times> real) option"
  lv_stop_loss :: num
  lv_risk_pct :: num

text \<open>Lines 74--77: \<^verbatim>\<open>is_uptrend = ema_now >= ema_prev\<close>.\<close>

definition detect_trend :: "num \<Rightarrow> num \<Rightarrow> bool" where
  "detect_trend e_now e_prev = nle e_prev e_now"

text \<open>Lines 124--136 of \<^verbatim>\<open>_scan_one\<close>.\<close>

definition swing_stop_loss :: "bool \<Rightarrow> real \<Rightarrow> real \<Rightarrow> num \<Rightarrow> num" where
  "swing_stop_loss up cur sl_fib a =
     (if up then
        (let sl_atr = nsub (Val cur) (nmul a (Val 1.5));
             s = nround 2 (py_max (py_min (Val sl_fib) sl_atr) (Val (cur * 0.85)))
         in py_min s (Val (cur * 0.98)))
      else
        (let sl_atr = nadd (Val cur) (nmul a (Val 1.5));
             s = nround 2 (py_min (py_max (Val sl_fib) sl_atr) (Val (cur * 1.15)))
         in py_max s (Val (cur * 1.02))))"

text \<open>Lines 138--139: \<^verbatim>\<open>abs((current - stop_loss) / current * 100)\<close>, at least 0.1.\<close>

fun nabs_pct :: "real \<Rightarrow> num \<Rightarrow> num" where
  "nabs_pct cur (Val s) = Val \<bar>(cur - s) / cur * 100\<bar>"
| "nabs_pct cur NaN = NaN"

text \<open>
  \<^verbatim>\<open>_scan_one\<close> from line 59 to line 139; \<open>None\<close> is the \<^verbatim>\<open>return None\<close> of lines 61
  and 68.
\<close>

definition scan_one :: "scan_frame \<Rightarrow> scan_levels option" where
  "scan_one f =
     (if sf_current f \<le> 0 then None
      else let fib_range = sf_swing_high f - sf_swing_low f in
        if fib_range \<le> 0 then None
        else
          let up = detect_trend (sf_ema_now f) (sf_ema_prev f);
              base = (if up then sf_swing_low f else sf_swing_high f);
              direction = (if up then 1 else -1);
              sl = swing_stop_loss up (sf_current f) (fp base direction fib_range 0.786) (sf_atr f)
          in Some \<lparr> lv_is_uptrend = up,
                    lv_zone = locate_zone (sf_current f) (sf_swing_high f) (sf_swing_low f) up,
                    lv_stop_loss = sl,
                    lv_risk_pct = py_max (nabs_pct (sf_current f) sl) (Val 0.1) \<rparr>)"

text \<open>
  \<^verbatim>\<open>_scan_intraday\<close>, lines 545--608. The swing is taken over the last 40 bars at most,
  the trend from EMA21 now and five bars back (line 562; the frame has at least 10 rows),
  and line 597 replaces a NaN ATR by one percent of the price.
\<close>

definition intraday_stop_loss :: "bool \<Rightarrow> real \<Rightarrow> num \<Rightarrow> num" where
  "intraday_stop_loss up cur a =
     (if up then
        (let s = nround 2 (py_max (nsub (Val cur) (nmul a (Val 1.0))) (Val (cur * 0.97)))
         in py_min s (Val (cur * 0.99)))
      else
        (let s = nround 2 (py_min (nadd (Val cur) (nmul a (Val 1.0))) (Val (cur * 1.03)))
         in py_max s (Val (cur * 1.01))))"

definition scan_intraday :: "scan_frame \<Rightarrow> scan_levels option" where
  "scan_intraday f =
     (if sf_current f \<le> 0 then None
      else let fib_range = sf_swing_high f - sf_swing_low f in
        if fib_range < sf_current f * 0.001 then None
        else
          let up = detect_trend (sf_ema_now f) (sf_ema_prev f);
              a = (if isna (sf_atr f) then Val (sf_current f * 0.01) else sf_atr f);
              sl = intraday_stop_loss up (sf_current f) a
          in Some \<lparr> lv_is_uptrend = up,
                    lv_zone = locate_zone (sf_current f) (sf_swing_high f) (sf_swing_low f) up,
                    lv_stop_loss = sl,
                    lv_risk_pct = py_max (nabs_pct (sf_current f) sl) (Val 0.1) \<rparr>)"



text \<open>The second is in a downtrend, with an ATR cell that is NaN.\<close>

definition falling_frame :: scan_frame where
  "falling_frame = \<lparr> sf_current = 50, sf_swing_high = 80, sf_swing_low = 40,
      sf_ema_now = Val 55, sf_ema_prev = Val 60, sf_atr = NaN \<rparr>"

section \<open>Running a scan (\<^verbatim>\<open>modules/scanner.py\<close>)\<close>

subsection \<open>Zone labels\<close>

text \<open>
  A Python \<^verbatim>\<open>str\<close> is modelled by its UTF-8 bytes. A substring test \<^verbatim>\<open>a in b\<close> on code
  points is the same test on the bytes, UTF-8 being self-synchronising. The en dash is
  U+2013, the star is U+1F31F, and line 90 initialises the zone name with a Thai word for
  ``out of range''.
\<close>

definition en_dash :: string where
  "en_dash = [CHR 0xE2, CHR 0x80, CHR 0x93]"

definition star :: string where
  "star = [CHR 0xF0, CHR 0x9F, CHR 0x8C, CHR 0x9F]"

definition out_of_range :: string where
  "out_of_range = [CHR 0xE0, CHR 0xB8, CHR 0x99, CHR 0xE0, CHR 0xB8, CHR 0xAD,
                   CHR 0xE0, CHR 0xB8, CHR 0x81, CHR 0xE0, CHR 0xB8, CHR 0x8A,
                   CHR 0xE0, CHR 0xB9, CHR 0x88, CHR 0xE0, CHR 0xB8, CHR 0xA7,
                   CHR 0xE0, CHR 0xB8, CHR 0x87]"

text \<open>\<^verbatim>\<open>str(n)\<close> for a non-negative integer, and the format \<^verbatim>\<open>{x:.1f}\<close> for \<open>x \<ge> 0\<close>.\<close>

definition digit_char :: "nat \<Rightarrow> char" where
  "digit_char d = ''0123456789'' ! d"

fun str_nat :: "nat \<Rightarrow> string" where
  "str_nat n = (if n < 10 then [digit_char n] else str_nat (n div 10) @ [digit_char (n mod 10)])"

definition format_1f :: "real \<Rightarrow> string" where
  "format_1f x =
     (let t = nat (round_half_even (x * 10))
      in str_nat (t div 10) @ ''.'' @ str_nat (t mod 10))"

text \<open>Python's float remainder \<^verbatim>\<open>x % m\<close> for \<open>m > 0\<close>.\<close>

definition fmod :: "real \<Rightarrow> real \<Rightarrow> real" where
  "fmod x m = x - m * of_int \<lfloor>x / m\<rfloor>"

text \<open>Lines 95--99 of \<^verbatim>\<open>_scan_one\<close>: the name of the zone that was found.\<close>

definition zone_name :: "(real \<times> real) option \<Rightarrow> string" where
  "zone_name z =
     (case z of
        None \<Rightarrow> out_of_range
      | Some (r0, r1) \<Rightarrow>
          let zone_ratio = (r0 + r1) / 2 in
          if 0.382 \<le> zone_ratio \<and> zone_ratio \<le> 0.618
          then str_nat (nat (py_int (r0 * 100))) @ ''.'' @ str_nat (nat (py_int (fmod (r0 * 1000) 10)))
               @ en_dash
               @ str_nat (nat (py_int (r1 * 100))) @ ''.'' @ str_nat (nat (py_int (fmod (r1 * 1000) 10)))
               @ ''% '' @ star
          else format_1f (r0 * 100) @ en_dash @ format_1f (r1 * 100) @ ''%'')"

text \<open>\<^verbatim>\<open>needle in hay\<close> on strings.\<close>

fun starts_with :: "string \<Rightarrow> string \<Rightarrow> bool" where
  "starts_with [] hay = True"
| "starts_with (n # ns) [] = False"
| "starts_with (n # ns) (h # hs) = (n = h \<and> starts_with ns hs)"

fun str_in :: "string \<Rightarrow> string \<Rightarrow> bool" where
  "str_in needle [] = (needle = [])"
| "str_in needle (h # hs) = (starts_with needle (h # hs) \<or> str_in needle hs)"

subsection \<open>Scan rows and the completion loop\<close>

text \<open>
  The keys of the dictionary returned by \<^verbatim>\<open>_scan_one\<close> that the scan functions read or
  overwrite; the other keys are carried along unchanged and are left out.
\<close>

record scan_row =
  sr_symbol :: string
  sr_fib_score :: real
  sr_grade :: string
  sr_zone :: string
  sr_signal_score :: int
  sr_risk_reward :: real

text \<open>
  What \<^verbatim>\<open>future.result(timeout=30)\<close> does for a finished task: it returns the row, returns
  \<^verbatim>\<open>None\<close>, or raises.
\<close>

datatype 'r outcome = Returned 'r | ReturnedNone | Raised

text \<open>
  The state of the loop over \<^verbatim>\<open>as_completed(future_map)\<close>: the counter \<^verbatim>\<open>done\<close>, the
  calls made to the progress callback so far (its three arguments), and \<^verbatim>\<open>results\<close>.
\<close>

record loop_state =
  n_done :: nat
  calls :: "(nat \<times> nat \<times> string) list"
  results :: "scan_row list"

text \<open>
  Lines 250--260 (and 716--726): one iteration per finished future. The futures are
  numbered by submission; \<open>completed\<close> is the order in which \<^verbatim>\<open>as_completed\<close> yields them,
  \<open>label i\<close> the symbol of future \<open>i\<close>, \<open>outcome i\<close> what its task did.
\<close>

fun scan_loop :: "(nat \<Rightarrow> string) \<Rightarrow> (nat \<Rightarrow> scan_row outcome) \<Rightarrow> bool \<Rightarrow> nat \<Rightarrow> nat list
    \<Rightarrow> loop_state \<Rightarrow> loop_state" where
  "scan_loop label outcome has_callback n_total [] st = st"
| "scan_loop label outcome has_callback n_total (i # rest) st =
     (let d = n_done st + 1;
          cs = (if has_callback then calls st @ [(d, n_total, label i)] else calls st);
          rs = (case outcome i of Returned r \<Rightarrow> results st @ [r] | _ \<Rightarrow> results st)
      in scan_loop label outcome has_callback n_total rest
           \<lparr> n_done = d, calls = cs, results = rs \<rparr>)"

text \<open>The default universe of lines 12--24.\<close>

definition SET_UNIVERSE :: "string list" where
  "SET_UNIVERSE =
    [''PTT'',''ADVANC'',''SCB'',''KBANK'',''KTB'',''BBL'',''BAY'',''AOT'',''CPALL'',''SCC'',
     ''GULF'',''GPSC'',''PTTEP'',''PTTGC'',''RATCH'',''BGRIM'',''EGCO'',''BANPU'',''EA'',
     ''TOP'',''IRPC'',''BCP'',''SPRC'',
     ''MTC'',''SAWAD'',''TIDLOR'',''TTB'',''TISCO'',''KKP'',''TCAP'',''AEONTS'',''JMT'',''JMART'',
     ''TRUE'',''DELTA'',''HANA'',''KCE'',''INTUCH'',''INSET'',''THCOM'',
     ''BH'',''BDMS'',''BCH'',''CHG'',''PRINC'',
     ''HMPRO'',''COM7'',''BJC'',''GLOBAL'',''MAKRO'',''CRC'',''CPAXTRA'',''DOHOME'',
     ''OSP'',''TU'',''CPF'',''GFPT'',''OISHI'',''ICHI'',
     ''CPN'',''LH'',''SPALI'',''QH'',''AP'',''SC'',''SIRI'',''ORI'',''WHA'',''AMATA'',
     ''MINT'',''CENTEL'',''ERW'',''MAJOR'',''VGI'',''BEC'',''RS'',
     ''IVL'',''STA'',''STGT'',''TTA'',''PSL'',''THAI'',''AAV'',''BA'']"

text \<open>
  \<^verbatim>\<open>run_fibonacci_scan\<close>, lines 241--270. The result is the log of callback calls together
  with the returned table. \<^verbatim>\<open>sort_values\<close> orders by descending score; rows of equal
  score are kept here in their order of arrival.
\<close>

definition run_fibonacci_scan :: "string list option \<Rightarrow> real \<Rightarrow> real \<Rightarrow> bool
    \<Rightarrow> (nat \<Rightarrow> scan_row outcome) \<Rightarrow> nat list \<Rightarrow> (nat \<times> nat \<times> string) list \<times> scan_row list" where
  "run_fibonacci_scan symbols_arg min_fib_score min_rr has_callback outcome completed =
     (let symbols = (case symbols_arg of None \<Rightarrow> SET_UNIVERSE | Some s \<Rightarrow> s);
          n_total = length symbols;
          st = scan_loop (\<lambda>i. symbols ! i) outcome has_callback n_total completed
                 \<lparr> n_done = 0, calls = [], results = [] \<rparr>;
          df = filter (\<lambda>r. sr_risk_reward r \<ge> min_rr)
                 (filter (\<lambda>r. sr_fib_score r \<ge> min_fib_score) (results st))
      in (calls st, sort_key (\<lambda>r. - sr_fib_score r) df))"

text \<open>
  \<^verbatim>\<open>run_daytrade_scan\<close>, lines 701--735, has the same loop and the same filters over the
  tasks of \<^verbatim>\<open>_scan_intraday\<close>, with its own default list of symbols.
\<close>

definition DAYTRADE_SYMBOLS :: "string list" where
  "DAYTRADE_SYMBOLS =
    [''PTT'',''ADVANC'',''KBANK'',''SCB'',''KTB'',''BBL'',''AOT'',''CPALL'',''SCC'',''GULF'',
     ''PTTEP'',''BDMS'',''DELTA'',''TRUE'',''MTC'',''SAWAD'',''MINT'',''HMPRO'',''COM7'',
     ''TU'',''CPF'',''IVL'',''BANPU'',''EA'',''SPALI'',''LH'',''CPN'',''BJC'',''WHA'',''AMATA'',
     ''BH'',''CHG'',''CENTEL'',''ERW'',''BCH'',''TIDLOR'',''AEONTS'',''BAY'',''TISCO'',''KKP'']"

definition run_daytrade_scan :: "string list option \<Rightarrow> real \<Rightarrow> real \<Rightarrow> bool
    \<Rightarrow> (nat \<Rightarrow> scan_row outcome) \<Rightarrow> nat list \<Rightarrow> (nat \<times> nat \<times> string) list \<times> scan_row list" where
  "run_daytrade_scan symbols_arg min_fib_score min_rr has_callback outcome completed =
     (let symbols = (case symbols_arg of None \<Rightarrow> DAYTRADE_SYMBOLS | Some s \<Rightarrow> s);
          n_total = length symbols;
          st = scan_loop (\<lambda>i. symbols ! i) outcome has_callback n_total completed
                 \<lparr> n_done = 0, calls = [], results = [] \<rparr>;
          df = filter (\<lambda>r. sr_risk_reward r \<ge> min_rr)
                 (filter (\<lambda>r. sr_fib_score r \<ge> min_fib_score) (results st))
      in (calls st, sort_key (\<lambda>r. - sr_fib_score r) df))"

subsection \<open>Multi-timeframe scan\<close>

text \<open>
  The dictionary \<^verbatim>\<open>raw\<close> (symbol to period to row) as an association list in insertion
  order: \<^const>\<open>AList.update\<close> overwrites a key in place and appends a new one, as a Python
  dictionary does.
\<close>

type_synonym period_results = "(string \<times> scan_row) list"

record mtf_state =
  m_done :: nat
  m_calls :: "(nat \<times> nat \<times> string) list"
  m_raw :: "(string \<times> period_results) list"

text \<open>Lines 299--311; the label is \<^verbatim>\<open>f"{sym} ({p})"\<close>.\<close>

fun mtf_loop :: "(nat \<Rightarrow> string \<times> string) \<Rightarrow> (nat \<Rightarrow> scan_row outcome) \<Rightarrow> bool \<Rightarrow> nat \<Rightarrow> nat list
    \<Rightarrow> mtf_state \<Rightarrow> mtf_state" where
  "mtf_loop task outcome has_callback n_total [] st = st"
| "mtf_loop task outcome has_callback n_total (i # rest) st =
     (let d = m_done st + 1;
          sym = fst (task i);
          p = snd (task i);
          cs = (if has_callback then m_calls st @ [(d, n_total, sym @ '' ('' @ p @ '')'')]
                else m_calls st);
          raw = (case outcome i of
                   Returned r \<Rightarrow>
                     AList.update sym
                       (AList.update p r (case map_of (m_raw st) sym of None \<Rightarrow> [] | Some m \<Rightarrow> m))
                       (m_raw st)
                 | _ \<Rightarrow> m_raw st)
      in mtf_loop task outcome has_callback n_total rest
           \<lparr> m_done = d, m_calls = cs, m_raw = raw \<rparr>)"

text \<open>
  The four confluence labels of lines 352--355, in the order of the source: all three
  timeframes, two of three, one timeframe, none.
\<close>

datatype confluence = Three_of_3 | Two_of_3 | One_of_3 | None_passed

record mtf_row = scan_row +
  mtf_score :: real
  mtf_confluence :: confluence
  passed_tfs :: nat
  n_periods :: nat
  score_3mo :: "real option"
  score_6mo :: "real option"
  score_1y :: "real option"
  zone_3mo :: "string option"
  zone_6mo :: "string option"
  zone_1y :: "string option"

text \<open>Lines 340--343: the substring test on every zone name.\<close>

definition all_in_golden :: "string list \<Rightarrow> bool" where
  "all_in_golden zones =
     list_all (\<lambda>z. str_in ''38'' z \<or> str_in ''50'' z \<or> str_in ''61'' z \<or> str_in star z) zones"

text \<open>Lines 344--346.\<close>

definition confluence_bonus :: "nat \<Rightarrow> bool \<Rightarrow> real" where
  "confluence_bonus n all_golden =
     (if n \<ge> 3 \<and> all_golden then 15
      else if n \<ge> 2 \<and> all_golden then 10
      else if n \<ge> 2 then 5 else 0)"

text \<open>Lines 371--375.\<close>

definition mtf_grade :: "real \<Rightarrow> string" where
  "mtf_grade s =
     (if s \<ge> 80 then ''A+''
      else if s \<ge> 70 then ''A''
      else if s \<ge> 58 then ''B+''
      else if s \<ge> 45 then ''B''
      else ''C'')"

text \<open>
  The body of the merge loop, lines 321--377, for one symbol; \<open>None\<close> is the
  \<^verbatim>\<open>continue\<close> of line 322. Lines 326--327 take the row of the key \<^verbatim>\<open>"6mo"\<close> when the
  dictionary has it and the row of its first key otherwise. A zone column without its
  period holds a dash in the source, \<open>None\<close> here.
\<close>

definition merge_symbol :: "real \<Rightarrow> period_results \<Rightarrow> mtf_row option" where
  "merge_symbol min_fib_score prs =
     (if prs = [] then None
      else
        let n = length prs;
            primary = (case map_of prs ''6mo'' of Some r \<Rightarrow> r | None \<Rightarrow> snd (hd prs));
            tf_scores = map (\<lambda>(p, r). (p, sr_fib_score r)) prs;
            tf_zones = map (\<lambda>(p, r). (p, sr_zone r)) prs;
            avg_fib = sum_list (map snd tf_scores) / real n;
            bonus = confluence_bonus n (all_in_golden (map snd tf_zones));
            score = min 100 (py_round 1 (avg_fib + bonus));
            passed = length (filter (\<lambda>s. s \<ge> min_fib_score) (map snd tf_scores));
            label = (if passed = 3 then Three_of_3
                     else if passed = 2 then Two_of_3
                     else if passed = 1 then One_of_3
                     else None_passed)
        in Some (scan_row.extend (primary \<lparr> sr_grade := mtf_grade score \<rparr>)
             \<lparr> mtf_score = score, mtf_confluence = label, passed_tfs = passed, n_periods = n,
               score_3mo = map_of tf_scores ''3mo'', score_6mo = map_of tf_scores ''6mo'',
               score_1y = map_of tf_scores ''1y'',
               zone_3mo = map_of tf_zones ''3mo'', zone_6mo = map_of tf_zones ''6mo'',
               zone_1y = map_of tf_zones ''1y'' \<rparr>))"

text \<open>
  \<^verbatim>\<open>run_multi_timeframe_scan\<close>, lines 286--386. The final \<^verbatim>\<open>sort_values\<close> orders by
  \<^verbatim>\<open>passed_tfs\<close>, then by \<^verbatim>\<open>mtf_score\<close>, both descending.
\<close>

definition run_multi_timeframe_scan :: "string list option \<Rightarrow> string list option \<Rightarrow> real \<Rightarrow> real \<Rightarrow> bool
    \<Rightarrow> (nat \<Rightarrow> scan_row outcome) \<Rightarrow> nat list \<Rightarrow> (nat \<times> nat \<times> string) list \<times> mtf_row list" where
  "run_multi_timeframe_scan symbols_arg periods_arg min_fib_score min_rr has_callback outcome completed =
     (let symbols = (case symbols_arg of None \<Rightarrow> SET_UNIVERSE | Some s \<Rightarrow> s);
          periods = (case periods_arg of None \<Rightarrow> [''3mo'', ''6mo'', ''1y''] | Some ps \<Rightarrow> ps);
          tasks = List.product symbols periods;
          n_total = length tasks;
          st = mtf_loop (\<lambda>i. tasks ! i) outcome has_callback n_total completed
                 \<lparr> m_done = 0, m_calls = [], m_raw = [] \<rparr>;
          merged = List.map_filter (\<lambda>(sym, prs). merge_symbol min_fib_score prs) (m_raw st);
          df = filter (\<lambda>r. sr_risk_reward r \<ge> min_rr)
                 (filter (\<lambda>r. mtf_score r \<ge> min_fib_score) merged)
      in (m_calls st,
          sort_key (\<lambda>r. - int (passed_tfs r)) (sort_key (\<lambda>r. - mtf_score r) df)))"

text \<open>
  The names \<^verbatim>\<open>_scan_one\<close> gives to the zones. Those of the golden zone (lines 96--97:
  \<open>0.382 \<le> zone_ratio \<le> 0.618\<close>, marked with the star) are the third and the fourth; the
  first, the last and the out-of-range name are the ones on which the substring test of
  line 341 fails.
\<close>

definition golden_name :: "string \<Rightarrow> bool" where
  "golden_name z \<longleftrightarrow> z = zone_name (Some (fib_zones ! 2)) \<or> z = zone_name (Some (fib_zones ! 3))"

definition outer_name :: "string \<Rightarrow> bool" where
  "outer_name z \<longleftrightarrow> z = zone_name None \<or> z = zone_name (Some (fib_zones ! 0))
                     \<or> z = zone_name (Some (fib_zones ! 5))"

text \<open>The average of the per-period scores, line 336.\<close>

definition avg_fib_score :: "period_results \<Rightarrow> real" where
  "avg_fib_score prs = sum_list (map (\<lambda>pr. sr_fib_score (snd pr)) prs) / real (length prs)"

text \<open>Example rows: a symbol scanned over three periods.\<close>

definition period_row :: "real \<Rightarrow> string \<Rightarrow> scan_row" where
  "period_row score z = \<lparr> sr_symbol = ''PTT'', sr_fib_score = score, sr_grade = ''A+'',
      sr_zone = z, sr_signal_score = 60, sr_risk_reward = 2 \<rparr>"

definition three_golden :: period_results where
  "three_golden =
     [(''3mo'', period_row 90 (zone_name (Some (fib_zones ! 2)))),
      (''6mo'', period_row 92 (zone_name (Some (fib_zones ! 3)))),
      (''1y'', period_row 94 (zone_name (Some (fib_zones ! 2))))]"

definition two_of_three :: period_results where
  "two_of_three =
     [(''3mo'', period_row 60 (zone_name (Some (fib_zones ! 2)))),
      (''6mo'', period_row 70 (zone_name (Some (fib_zones ! 3)))),
      (''1y'', period_row 35 (zone_name (Some (fib_zones ! 0))))]"

definition three_neighbour :: period_results where
  "three_neighbour =
     [(''3mo'', period_row 50 (zone_name (Some (fib_zones ! 1)))),
      (''6mo'', period_row 50 (zone_name (Some (fib_zones ! 4)))),
      (''1y'', period_row 50 (zone_name (Some (fib_zones ! 1))))]"

section \<open>Lemmas on rounding\<close>

lemma rhe_cases:
  obtains f :: int where "of_int f \<le> x" "x < of_int f + 1" "f = \<lfloor>x\<rfloor>"
    "round_half_even x = f \<or> round_half_even x = f + 1"
    "x - of_int f < 1 / 2 \<Longrightarrow> round_half_even x = f"
    "1 / 2 < x - of_int f \<Longrightarrow> round_half_even x = f + 1"
proof -
  define f where "f = \<lfloor>x\<rfloor>"
  have 1: "of_int f \<le> x" "x < of_int f + 1" unfolding f_def by linarith+
  have 2: "round_half_even x = (if x - of_int f < 1 / 2 then f
         else if 1 / 2 < x - of_int f then f + 1 else if even f then f else f + 1)"
    by (simp add: round_half_even_def Let_def f_def)
  show thesis
    by (rule that[of f]) (use 1 2 f_def in \<open>auto split: if_splits\<close>)
qed

lemma rhe_bounds: "of_int (round_half_even x) \<le> x + 1 / 2" "x - 1 / 2 \<le> of_int (round_half_even x)"
proof -
  obtain f :: int where f: "of_int f \<le> x" "x < of_int f + 1"
    "round_half_even x = f \<or> round_half_even x = f + 1"
    "x - of_int f < 1 / 2 \<Longrightarrow> round_half_even x = f"
    "1 / 2 < x - of_int f \<Longrightarrow> round_half_even x = f + 1"
    by (rule rhe_cases[of x]) blast
  show "of_int (round_half_even x) \<le> x + 1 / 2"
  proof (cases "x - of_int f < 1 / 2")
    case True
    with f(4) f(1) show ?thesis by simp
  next
    case False
    with f(3) show ?thesis by auto
  qed
  show "x - 1 / 2 \<le> of_int (round_half_even x)"
  proof (cases "1 / 2 < x - of_int f")
    case True
    with f(5) f(2) show ?thesis by simp
  next
    case False
    with f(3) show ?thesis by auto
  qed
qed

lemma rhe_of_int: "round_half_even (of_int k) = k"
  by (simp add: round_half_even_def Let_def)

lemma rhe_mono:
  assumes "x \<le> y"
  shows "round_half_even x \<le> round_half_even y"
proof -
  obtain f :: int where f: "of_int f \<le> x" "x < of_int f + 1" "f = \<lfloor>x\<rfloor>"
    "round_half_even x = f \<or> round_half_even x = f + 1"
    "x - of_int f < 1 / 2 \<Longrightarrow> round_half_even x = f"
    "1 / 2 < x - of_int f \<Longrightarrow> round_half_even x = f + 1"
    by (rule rhe_cases[of x]) blast
  obtain g :: int where g: "of_int g \<le> y" "y < of_int g + 1" "g = \<lfloor>y\<rfloor>"
    "round_half_even y = g \<or> round_half_even y = g + 1"
    "y - of_int g < 1 / 2 \<Longrightarrow> round_half_even y = g"
    "1 / 2 < y - of_int g \<Longrightarrow> round_half_even y = g + 1"
    by (rule rhe_cases[of y]) blast
  have fg: "f \<le> g" unfolding f(3) g(3) by (rule floor_mono[OF assms])
  show ?thesis
  proof (cases "f = g")
    case False
    with fg have "f + 1 \<le> g" by simp
    with f(4) g(4) show ?thesis by auto
  next
    case True
    show ?thesis
    proof (cases "round_half_even x = f")
      case True
      with g(4) \<open>f = g\<close> show ?thesis by auto
    next
      case False
      then have rx: "round_half_even x = f + 1" using f(4) by simp
      have nx: "\<not> x - of_int f < 1 / 2" using f(5) False by blast
      show ?thesis
      proof (cases "1 / 2 < y - of_int g")
        case True
        with g(6) rx \<open>f = g\<close> show ?thesis by simp
      next
        case False
        with nx assms \<open>f = g\<close> have "x = y" by simp
        then show ?thesis by simp
      qed
    qed
  qed
qed

lemma rhe_strict:
  assumes "x + 1 < y"
  shows "round_half_even x < round_half_even y"
proof -
  have "of_int (round_half_even x) \<le> x + 1 / 2" by (rule rhe_bounds)
  moreover have "y - 1 / 2 \<le> of_int (round_half_even y)" by (rule rhe_bounds)
  ultimately have "(of_int (round_half_even x) :: real) < of_int (round_half_even y)"
    using assms by linarith
  then show ?thesis by simp
qed

lemma py_round_mono: "x \<le> y \<Longrightarrow> py_round n x \<le> py_round n y"
  by (simp add: py_round_def divide_right_mono rhe_mono mult_right_mono)

lemma py_round_grid: "py_round n (of_int k / 10 ^ n) = of_int k / 10 ^ n"
  by (simp add: py_round_def rhe_of_int)

lemma py_round_is_grid: "\<exists>k. py_round n x = of_int k / 10 ^ n"
  by (auto simp: py_round_def)

lemma py_round_strict:
  assumes "x + 1 / 10 ^ n < y"
  shows "py_round n x < py_round n y"
proof -
  have "(x + 1 / 10 ^ n) * 10 ^ n < y * 10 ^ n" using assms by (simp add: mult_strict_right_mono)
  then have "x * 10 ^ n + 1 < y * 10 ^ n" by (simp add: algebra_simps)
  from rhe_strict[OF this] show ?thesis by (simp add: py_round_def divide_strict_right_mono)
qed

lemma py_round_le_grid:
  assumes "x \<le> of_int k / 10 ^ n"
  shows "py_round n x \<le> of_int k / 10 ^ n"
  using py_round_mono[OF assms, of n] by (simp add: py_round_grid)

lemma py_round_ge_grid:
  assumes "of_int k / 10 ^ n \<le> x"
  shows "of_int k / 10 ^ n \<le> py_round n x"
  using py_round_mono[OF assms, of n] by (simp add: py_round_grid)

lemma py_min_Val: "py_min (Val x) (Val y) = Val (min x y)"
  by (simp add: py_min_def min_def)

lemma py_max_Val: "py_max (Val x) (Val y) = Val (max x y)"
  by (simp add: py_max_def max_def)

lemma py_min_NaN: "py_min (Val x) NaN = Val x"
  by (simp add: py_min_def)

lemma py_max_NaN: "py_max (Val x) NaN = Val x"
  by (simp add: py_max_def)

section \<open>Lemmas on the zone scan\<close>














lemma scan_one_SomeD:
  assumes "scan_one f = Some r"
  shows "0 < sf_current f" "sf_swing_low f < sf_swing_high f"
    "lv_is_uptrend r = detect_trend (sf_ema_now f) (sf_ema_prev f)"
    "lv_zone r = locate_zone (sf_current f) (sf_swing_high f) (sf_swing_low f) (lv_is_uptrend r)"
    "lv_stop_loss r = swing_stop_loss (lv_is_uptrend r) (sf_current f)
       (fp (if lv_is_uptrend r then sf_swing_low f else sf_swing_high f)
           (if lv_is_uptrend r then 1 else -1) (sf_swing_high f - sf_swing_low f) 0.786) (sf_atr f)"
  using assms by (auto simp: scan_one_def Let_def split: if_splits)

lemma scan_intraday_SomeD:
  assumes "scan_intraday f = Some r"
  shows "0 < sf_current f" "sf_swing_low f < sf_swing_high f"
    "lv_is_uptrend r = detect_trend (sf_ema_now f) (sf_ema_prev f)"
    "lv_zone r = locate_zone (sf_current f) (sf_swing_high f) (sf_swing_low f) (lv_is_uptrend r)"
    "lv_stop_loss r = intraday_stop_loss (lv_is_uptrend r) (sf_current f)
       (if isna (sf_atr f) then Val (sf_current f * 0.01) else sf_atr f)"
proof -
  from assms have c: "0 < sf_current f" and g: "\<not> sf_swing_high f - sf_swing_low f < sf_current f * 0.001"
    by (auto simp: scan_intraday_def Let_def split: if_splits)
  show "0 < sf_current f" by (rule c)
  have "0 < sf_current f * 0.001" using c by simp
  with g show "sf_swing_low f < sf_swing_high f" by linarith
  from assms c g have r: "r = \<lparr> lv_is_uptrend = detect_trend (sf_ema_now f) (sf_ema_prev f),
        lv_zone = locate_zone (sf_current f) (sf_swing_high f) (sf_swing_low f)
                    (detect_trend (sf_ema_now f) (sf_ema_prev f)),
        lv_stop_loss = intraday_stop_loss (detect_trend (sf_ema_now f) (sf_ema_prev f)) (sf_current f)
           (if isna (sf_atr f) then Val (sf_current f * 0.01) else sf_atr f),
        lv_risk_pct = py_max (nabs_pct (sf_current f)
           (intraday_stop_loss (detect_trend (sf_ema_now f) (sf_ema_prev f)) (sf_current f)
           (if isna (sf_atr f) then Val (sf_current f * 0.01) else sf_atr f))) (Val 0.1) \<rparr>"
    by (simp add: scan_intraday_def Let_def split: if_splits)
  show "lv_is_uptrend r = detect_trend (sf_ema_now f) (sf_ema_prev f)" by (simp add: r)
  show "lv_zone r = locate_zone (sf_current f) (sf_swing_high f) (sf_swing_low f) (lv_is_uptrend r)"
    by (simp add: r)
  show "lv_stop_loss r = intraday_stop_loss (lv_is_uptrend r) (sf_current f)
       (if isna (sf_atr f) then Val (sf_current f * 0.01) else sf_atr f)"
    by (simp add: r)
qed

lemma swing_stop_up:
  assumes "0 < cur"
  shows "\<exists>s. swing_stop_loss True cur f a = Val s \<and> s < cur"
proof -
  have lt: "cur * 0.98 < cur" using assms by simp
  obtain m where m: "py_max (py_min (Val f) (nsub (Val cur) (nmul a (Val 1.5)))) (Val (cur * 0.85)) = Val m"
    by (cases a) (simp_all add: py_min_Val py_max_Val py_min_NaN)
  have "swing_stop_loss True cur f a = Val (min (py_round 2 m) (cur * 0.98))"
    by (simp only: swing_stop_loss_def Let_def if_True m nround.simps py_min_Val)
  moreover have "min (py_round 2 m) (cur * 0.98) < cur" using lt by simp
  ultimately show ?thesis by blast
qed

lemma swing_stop_down:
  assumes "0 < cur"
  shows "\<exists>s. swing_stop_loss False cur f a = Val s \<and> cur < s"
proof -
  have lt: "cur < cur * 1.02" using assms by simp
  obtain m where m: "py_min (py_max (Val f) (nadd (Val cur) (nmul a (Val 1.5)))) (Val (cur * 1.15)) = Val m"
    by (cases a) (simp_all add: py_min_Val py_max_Val py_max_NaN)
  have "swing_stop_loss False cur f a = Val (max (py_round 2 m) (cur * 1.02))"
    by (simp only: swing_stop_loss_def Let_def if_False m nround.simps py_max_Val)
  moreover have "cur < max (py_round 2 m) (cur * 1.02)" using lt by simp
  ultimately show ?thesis by blast
qed

lemma intraday_stop_up:
  assumes "0 < cur" "\<not> isna a"
  shows "\<exists>s. intraday_stop_loss True cur a = Val s \<and> s < cur"
proof -
  have lt: "cur * 0.99 < cur" using assms by simp
  obtain m where m: "py_max (nsub (Val cur) (nmul a (Val 1.0))) (Val (cur * 0.97)) = Val m"
    using assms(2) by (cases a) (simp_all add: py_max_Val)
  have "intraday_stop_loss True cur a = Val (min (py_round 2 m) (cur * 0.99))"
    by (simp only: intraday_stop_loss_def Let_def if_True m nround.simps py_min_Val)
  moreover have "min (py_round 2 m) (cur * 0.99) < cur" using lt by simp
  ultimately show ?thesis by blast
qed

lemma intraday_stop_down:
  assumes "0 < cur" "\<not> isna a"
  shows "\<exists>s. intraday_stop_loss False cur a = Val s \<and> cur < s"
proof -
  have lt: "cur < cur * 1.01" using assms by simp
  obtain m where m: "py_min (nadd (Val cur) (nmul a (Val 1.0))) (Val (cur * 1.03)) = Val m"
    using assms(2) by (cases a) (simp_all add: py_min_Val)
  have "intraday_stop_loss False cur a = Val (max (py_round 2 m) (cur * 1.01))"
    by (simp only: intraday_stop_loss_def Let_def if_False m nround.simps py_max_Val)
  moreover have "cur < max (py_round 2 m) (cur * 1.01)" using lt by simp
  ultimately show ?thesis by blast
qed

lemma scanner_stop_loss_side:
  assumes "scan_one f = Some r \<or> scan_intraday f = Some r"
  shows "\<exists>s. lv_stop_loss r = Val s \<and> (if lv_is_uptrend r then s < sf_current f else sf_current f < s)"
proof -
  have na: "\<not> isna (if isna (sf_atr f) then Val (sf_current f * 0.01) else sf_atr f)" by simp
  from assms show ?thesis
  proof
    assume a: "scan_one f = Some r"
    show ?thesis
      unfolding scan_one_SomeD(5)[OF a]
      using swing_stop_up[OF scan_one_SomeD(1)[OF a]] swing_stop_down[OF scan_one_SomeD(1)[OF a]]
      by (cases "lv_is_uptrend r") simp_all
  next
    assume a: "scan_intraday f = Some r"
    show ?thesis
      unfolding scan_intraday_SomeD(5)[OF a]
      using intraday_stop_up[OF scan_intraday_SomeD(1)[OF a] na]
        intraday_stop_down[OF scan_intraday_SomeD(1)[OF a] na]
      by (cases "lv_is_uptrend r") simp_all
  qed
qed

section \<open>Lemmas on support and resistance levels\<close>

lemma mean_pos:
  assumes "xs \<noteq> []" "\<forall>x\<in>set xs. 0 < x"
  shows "0 < mean xs"
proof -
  have "0 < sum_list xs" using assms
    by (induction xs) (auto intro: add_pos_nonneg sum_list_nonneg less_imp_le)
  then show ?thesis using assms(1) by (simp add: mean_def)
qed

lemma cluster_loop_pos:
  assumes "\<forall>c\<in>set clustered. 0 < c" "grp \<noteq> []" "\<forall>g\<in>set grp. 0 < g" "\<forall>l\<in>set lvs. 0 < l"
  shows "\<forall>c\<in>set (cluster_loop th clustered grp lvs). 0 < c"
  using assms
proof (induction lvs arbitrary: clustered grp)
  case Nil
  then show ?case by (simp add: mean_pos)
next
  case (Cons lv lvs)
  show ?case
  proof (cases "\<bar>lv - last grp\<bar> / max (last grp) (1 / 10 ^ 9) \<le> th")
    case True
    have "\<forall>c\<in>set (cluster_loop th clustered (grp @ [lv]) lvs). 0 < c"
      using Cons.prems by (intro Cons.IH) simp_all
    with True show ?thesis by simp
  next
    case False
    have "\<forall>c\<in>set (cluster_loop th (clustered @ [mean grp]) [lv] lvs). 0 < c"
      using Cons.prems by (intro Cons.IH) (simp_all add: mean_pos)
    with False show ?thesis by simp
  qed
qed

lemma cluster_levels_pos:
  assumes "\<forall>l\<in>set levels. 0 < l"
  shows "\<forall>c\<in>set (cluster_levels levels th). 0 < c"
proof (cases levels)
  case Nil
  then show ?thesis by (simp add: cluster_levels_def)
next
  case (Cons lv lvs)
  have "\<forall>c\<in>set (cluster_loop th [] [lv] lvs). 0 < c"
    using assms Cons by (intro cluster_loop_pos) simp_all
  then show ?thesis by (simp add: cluster_levels_def Cons)
qed

lemma argrelextrema_bound:
  assumes "argrelextrema data cmp order = Inr idx"
  shows "\<forall>i\<in>set idx. i < length data"
  using assms by (auto simp: argrelextrema_def split: if_splits)

lemma extrema_levels_subset:
  assumes "argrelextrema data cmp order = Inr idx"
  shows "set (sorted_set (map ((!) data) idx)) \<subseteq> set data"
  using argrelextrema_bound[OF assms] by (auto simp: sorted_set_def)

lemma find_support_resistance_cases:
  assumes "find_support_resistance closes w = Inr (sups, ress)"
  obtains "sups = []" "ress = []"
  | mins maxs where "argrelextrema closes (\<le>) w = Inr mins" "argrelextrema closes (\<ge>) w = Inr maxs"
      "sups = take 7 (sort_key (\<lambda>x. \<bar>x - last closes\<bar>)
         (filter (\<lambda>s. s < last closes * 1.02) (cluster_levels (sorted_set (map ((!) closes) mins)) 0.01)))"
      "ress = take 7 (sort_key (\<lambda>x. \<bar>x - last closes\<bar>)
         (filter (\<lambda>r. r > last closes * 0.98) (cluster_levels (sorted_set (map ((!) closes) maxs)) 0.01)))"
proof -
  have ne: "closes \<noteq> []"
    using assms by (cases "closes = []") (simp_all add: find_support_resistance_def)
  show thesis
  proof (cases "argrelextrema closes (\<le>) w")
    case (Inl e)
    with assms ne have "Inr ([], []) = (Inr (sups, ress) :: py_error + (real list \<times> real list))"
      by (simp only: find_support_resistance_def if_False Let_def prod.case sum.case)
    then show thesis using that(1) by simp
  next
    case mins: (Inr mins)
    show thesis
    proof (cases "argrelextrema closes (\<ge>) w")
      case (Inl e)
      with assms ne mins have "Inr ([], []) = (Inr (sups, ress) :: py_error + (real list \<times> real list))"
        by (simp only: find_support_resistance_def if_False Let_def prod.case sum.case)
      then show thesis using that(1) by simp
    next
      case maxs: (Inr maxs)
      from assms ne have "Inr (take 7 (sort_key (\<lambda>x. \<bar>x - last closes\<bar>)
         (filter (\<lambda>s. s < last closes * 1.02) (cluster_levels (sorted_set (map ((!) closes) mins)) 0.01))),
        take 7 (sort_key (\<lambda>x. \<bar>x - last closes\<bar>)
         (filter (\<lambda>r. r > last closes * 0.98) (cluster_levels (sorted_set (map ((!) closes) maxs)) 0.01))))
        = (Inr (sups, ress) :: py_error + (real list \<times> real list))"
        by (simp only: find_support_resistance_def if_False Let_def mins maxs prod.case sum.case)
      then have "sups = take 7 (sort_key (\<lambda>x. \<bar>x - last closes\<bar>)
         (filter (\<lambda>s. s < last closes * 1.02) (cluster_levels (sorted_set (map ((!) closes) mins)) 0.01)))"
        "ress = take 7 (sort_key (\<lambda>x. \<bar>x - last closes\<bar>)
         (filter (\<lambda>r. r > last closes * 0.98) (cluster_levels (sorted_set (map ((!) closes) maxs)) 0.01)))"
        by (simp_all only: sum.inject prod.inject)
      with mins maxs show thesis using that(2) by blast
    qed
  qed
qed

lemma find_support_resistance_pos:
  assumes "find_support_resistance closes w = Inr (sups, ress)" "\<forall>c\<in>set closes. 0 < c"
  shows "\<forall>s\<in>set sups. 0 < s"
  using assms(1)
proof (cases rule: find_support_resistance_cases)
  case 1
  then show ?thesis by simp
next
  case (2 mins maxs)
  have "\<forall>l\<in>set (sorted_set (map ((!) closes) mins)). 0 < l"
    using extrema_levels_subset[OF 2(1)] assms(2) by blast
  from cluster_levels_pos[OF this, of "0.01"] show ?thesis
    unfolding 2(3) by (auto dest!: in_set_takeD)
qed





section \<open>Lemmas on the target calculator\<close>

lemma calc_struct:
  assumes "calculate_price_targets df cur = Inr t"
  obtains sups ress lo hi where
    "find_support_resistance (pf_close df) 10 = Inr (sups, ress)"
    "lo \<le> (if sups \<noteq> [] then hd sups else cur * 0.95)"
    "(if sups \<noteq> [] then hd sups else cur * 0.95) \<le> hi"
    "buy_low t = Val (py_round 2 (lo * 0.99))"
    "buy_high t = Val (py_round 2 (hi * 1.01))"
    "tg_stop_loss t = Val (py_round 2 (py_round 2 (lo * 0.99) - effective_atr df cur * 1.5))"
    "tp1 t = Val (py_round 2 (cur + (cur - py_round 2 (py_round 2 (lo * 0.99) - effective_atr df cur * 1.5)) * 2))"
    "tp2 t = Val (py_round 2 (cur + (cur - py_round 2 (py_round 2 (lo * 0.99) - effective_atr df cur * 1.5)) * 3))"
proof -
  obtain sups ress where sr: "find_support_resistance (pf_close df) 10 = Inr (sups, ress)"
    using assms by (auto simp: calculate_price_targets_def split: sum.splits)
  define nearest where "nearest = (if sups \<noteq> [] then hd sups else cur * 0.95)"
  define F where "F = nround 2 (nadd (rolling_min_last 60 (pf_low df))
     (nmul (nsub (rolling_max_last 60 (pf_high df)) (rolling_min_last 60 (pf_low df))) (Val 0.618)))"
  define lo where "lo = (case F of Val x \<Rightarrow> min nearest x | NaN \<Rightarrow> nearest)"
  define hi where "hi = (case F of Val x \<Rightarrow> max nearest x | NaN \<Rightarrow> nearest)"
  have mn: "py_min (Val nearest) F = Val lo" and mx: "py_max (Val nearest) F = Val hi"
    by (cases F; simp add: lo_def hi_def py_min_Val py_max_Val py_min_NaN py_max_NaN)+
  have lohi: "lo \<le> nearest" "nearest \<le> hi"
    by (cases F; simp add: lo_def hi_def)+
  define st where "st = py_round 2 (py_round 2 (lo * 0.99) - effective_atr df cur * 1.5)"
  from assms have t: "buy_low t = Val (py_round 2 (lo * 0.99))"
    "buy_high t = Val (py_round 2 (hi * 1.01))"
    "tg_stop_loss t = Val st"
    "tp1 t = Val (py_round 2 (cur + (cur - st) * 2))"
    "tp2 t = Val (py_round 2 (cur + (cur - st) * 3))"
    unfolding calculate_price_targets_def sr sum.case prod.case Let_def
      nearest_def[symmetric] F_def[symmetric] mn mx st_def
    by auto
  show thesis
    by (rule that[of sups ress lo hi]) (use sr lohi t in \<open>simp_all add: nearest_def st_def\<close>)
qed

lemma targets_stop_below:
  assumes "calculate_price_targets df cur = Inr t \<and> 0.01 \<le> effective_atr df cur * 1.5 \<and> P"
  shows "\<exists>s bl. tg_stop_loss t = Val s \<and> buy_low t = Val bl \<and> s + 0.01 \<le> bl"
proof -
  from assms have ok: "calculate_price_targets df cur = Inr t"
    and a: "0.01 \<le> effective_atr df cur * 1.5" by simp_all
  from ok obtain sups ress lo hi where c:
    "find_support_resistance (pf_close df) 10 = Inr (sups, ress)"
    "lo \<le> (if sups \<noteq> [] then hd sups else cur * 0.95)"
    "(if sups \<noteq> [] then hd sups else cur * 0.95) \<le> hi"
    "buy_low t = Val (py_round 2 (lo * 0.99))"
    "buy_high t = Val (py_round 2 (hi * 1.01))"
    "tg_stop_loss t = Val (py_round 2 (py_round 2 (lo * 0.99) - effective_atr df cur * 1.5))"
    "tp1 t = Val (py_round 2 (cur + (cur - py_round 2 (py_round 2 (lo * 0.99) - effective_atr df cur * 1.5)) * 2))"
    "tp2 t = Val (py_round 2 (cur + (cur - py_round 2 (py_round 2 (lo * 0.99) - effective_atr df cur * 1.5)) * 3))"
    by (rule calc_struct)
  define bl where "bl = py_round 2 (lo * 0.99)"
  define s where "s = py_round 2 (bl - effective_atr df cur * 1.5)"
  obtain k where k: "bl = of_int k / 10 ^ 2" unfolding bl_def using py_round_is_grid by blast
  have "bl - effective_atr df cur * 1.5 \<le> of_int (k - 1) / 10 ^ 2"
    using a by (simp add: k diff_divide_distrib)
  from py_round_le_grid[OF this] have "s + 0.01 \<le> bl"
    by (simp add: s_def k diff_divide_distrib)
  with c(4,6) show ?thesis by (simp add: bl_def s_def)
qed

lemma targets_levels:
  assumes ok: "calculate_price_targets df cur = Inr t"
    and pos: "\<forall>c\<in>set (pf_close df). 0 < c" "0 < cur"
    and a: "0.01 \<le> effective_atr df cur * 1.5"
  obtains s bl bh t1 t2 where
    "tg_stop_loss t = Val s" "buy_low t = Val bl" "buy_high t = Val bh" "tp1 t = Val t1" "tp2 t = Val t2"
    "s + 0.01 \<le> bl" "bl \<le> bh" "bh < cur \<Longrightarrow> bh < t1 \<and> t1 < t2"
proof -
  from ok obtain sups ress lo hi where c:
    "find_support_resistance (pf_close df) 10 = Inr (sups, ress)"
    "lo \<le> (if sups \<noteq> [] then hd sups else cur * 0.95)"
    "(if sups \<noteq> [] then hd sups else cur * 0.95) \<le> hi"
    "buy_low t = Val (py_round 2 (lo * 0.99))"
    "buy_high t = Val (py_round 2 (hi * 1.01))"
    "tg_stop_loss t = Val (py_round 2 (py_round 2 (lo * 0.99) - effective_atr df cur * 1.5))"
    "tp1 t = Val (py_round 2 (cur + (cur - py_round 2 (py_round 2 (lo * 0.99) - effective_atr df cur * 1.5)) * 2))"
    "tp2 t = Val (py_round 2 (cur + (cur - py_round 2 (py_round 2 (lo * 0.99) - effective_atr df cur * 1.5)) * 3))"
    by (rule calc_struct)
  define nearest where "nearest = (if sups \<noteq> [] then hd sups else cur * 0.95)"
  define bl where "bl = py_round 2 (lo * 0.99)"
  define bh where "bh = py_round 2 (hi * 1.01)"
  define s where "s = py_round 2 (bl - effective_atr df cur * 1.5)"
  define t1 where "t1 = py_round 2 (cur + (cur - s) * 2)"
  define t2 where "t2 = py_round 2 (cur + (cur - s) * 3)"
  have npos: "0 < nearest"
  proof (cases "sups = []")
    case True
    then show ?thesis using pos(2) by (simp add: nearest_def)
  next
    case False
    then have "hd sups \<in> set sups" by simp
    with find_support_resistance_pos[OF c(1) pos(1)] False show ?thesis by (simp add: nearest_def)
  qed
  have lohi: "lo \<le> nearest" "nearest \<le> hi" using c(2,3) by (simp_all add: nearest_def)
  obtain k where k: "bl = of_int k / 10 ^ 2" unfolding bl_def using py_round_is_grid by blast
  obtain m where m: "bh = of_int m / 10 ^ 2" unfolding bh_def using py_round_is_grid by blast
  have "bl - effective_atr df cur * 1.5 \<le> of_int (k - 1) / 10 ^ 2"
    using a by (simp add: k diff_divide_distrib)
  from py_round_le_grid[OF this] have s_le: "s + 0.01 \<le> bl"
    by (simp add: s_def k diff_divide_distrib)
  have "lo * 0.99 \<le> hi * 1.01" using lohi npos by simp
  then have bl_bh: "bl \<le> bh" unfolding bl_def bh_def by (rule py_round_mono)
  have up: "bh < t1 \<and> t1 < t2" if lt: "bh < cur"
  proof
    have r: "0.01 < cur - s" using s_le bl_bh lt by simp
    have "of_int (m + 2) / 10 ^ 2 \<le> cur + (cur - s) * 2"
      using r lt by (simp add: m add_divide_distrib)
    from py_round_ge_grid[OF this] have "bh + 0.02 \<le> t1"
      by (simp add: t1_def m add_divide_distrib)
    then show "bh < t1" by simp
    have "(cur + (cur - s) * 2) + 1 / 10 ^ 2 < cur + (cur - s) * 3" using r by simp
    from py_round_strict[OF this] show "t1 < t2" by (simp add: t1_def t2_def)
  qed
  show thesis
    by (rule that[of s bl bh t1 t2])
       (use c s_le bl_bh up in \<open>simp_all add: bl_def bh_def s_def t1_def t2_def\<close>)
qed

section \<open>Lemmas on the completion loops\<close>

lemma scan_loop_calls:
  "calls (scan_loop label outcome True n_total completed st) =
     calls st @ map (\<lambda>(k, i). (n_done st + Suc k, n_total, label i)) (enumerate 0 completed)"
proof (induction completed arbitrary: st)
  case Nil
  then show ?case by simp
next
  case (Cons i rest)
  show ?case
    by (simp add: Cons.IH Let_def enumerate_Suc_eq map_prod_def comp_def case_prod_beta)
qed

lemma mtf_loop_calls:
  "m_calls (mtf_loop task outcome True n_total completed st) =
     m_calls st @ map (\<lambda>(k, i). (m_done st + Suc k, n_total, fst (task i) @ '' ('' @ snd (task i) @ '')''))
        (enumerate 0 completed)"
proof (induction completed arbitrary: st)
  case Nil
  then show ?case by simp
next
  case (Cons i rest)
  show ?case
    by (simp add: Cons.IH Let_def enumerate_Suc_eq map_prod_def comp_def case_prod_beta)
qed

lemma scan_loop_nocb: "calls (scan_loop label outcome False n_total completed st) = calls st"
  by (induction completed arbitrary: st) (simp_all add: Let_def)

lemma perm_length:
  assumes "mset completed = mset [0..<n]"
  shows "length completed = n"
  using mset_eq_length[OF assms] by simp

lemma nth_enumerate_map:
  assumes "k < length xs"
  shows "map (\<lambda>(k, i). f k i) (enumerate 0 xs) ! k = f k (xs ! k)"
  using assms by (simp add: nth_enumerate_eq)

lemma zone_names:
  "zone_name (Some (fib_zones ! 0)) = ''0.0'' @ en_dash @ ''23.6%''"
  "zone_name (Some (fib_zones ! 1)) = ''23.6'' @ en_dash @ ''38.2%''"
  "zone_name (Some (fib_zones ! 2)) = ''38.2'' @ en_dash @ ''50.0% '' @ star"
  "zone_name (Some (fib_zones ! 3)) = ''50.0'' @ en_dash @ ''61.8% '' @ star"
  "zone_name (Some (fib_zones ! 4)) = ''61.8'' @ en_dash @ ''78.6%''"
  "zone_name (Some (fib_zones ! 5)) = ''78.6'' @ en_dash @ ''100.0%''"
  by (simp_all add: fib_zones_def zone_name_def format_1f_def round_half_even_def Let_def
      digit_char_def py_int_def fmod_def)

lemma golden_name_test:
  assumes "golden_name z"
  shows "str_in ''38'' z \<or> str_in ''50'' z \<or> str_in ''61'' z \<or> str_in star z"
  using assms unfolding golden_name_def zone_names
  by (auto simp: en_dash_def star_def)

lemma outer_name_test:
  assumes "outer_name z"
  shows "\<not> (str_in ''38'' z \<or> str_in ''50'' z \<or> str_in ''61'' z \<or> str_in star z)"
  using assms unfolding outer_name_def zone_names
  by (auto simp: en_dash_def star_def zone_name_def out_of_range_def)

lemma all_in_golden_golden:
  assumes "\<forall>pr\<in>set prs. golden_name (sr_zone (snd pr))"
  shows "all_in_golden (map snd (map (\<lambda>(p, r). (p, sr_zone r)) prs))"
proof -
  have "str_in ''38'' (sr_zone r) \<or> str_in ''50'' (sr_zone r) \<or> str_in ''61'' (sr_zone r)
        \<or> str_in star (sr_zone r)" if "(p, r) \<in> set prs" for p r
    using assms that golden_name_test[of "sr_zone r"] by force
  then show ?thesis
    unfolding all_in_golden_def list_all_iff by force
qed

lemma all_in_golden_outer:
  assumes "\<exists>pr\<in>set prs. outer_name (sr_zone (snd pr))"
  shows "\<not> all_in_golden (map snd (map (\<lambda>(p, r). (p, sr_zone r)) prs))"
proof -
  from assms obtain pr where pr: "pr \<in> set prs" "outer_name (sr_zone (snd pr))" by blast
  obtain p r where e: "pr = (p, r)" by (cases pr)
  from outer_name_test[OF pr(2)] pr(1) e show ?thesis
    unfolding all_in_golden_def list_all_iff by force
qed

lemma merge_symbol_fields:
  assumes "merge_symbol mfs prs = Some row"
  shows "prs \<noteq> []"
    "n_periods row = length prs"
    "passed_tfs row = length (filter (\<lambda>pr. sr_fib_score (snd pr) \<ge> mfs) prs)"
    "mtf_confluence row = (if passed_tfs row = 3 then Three_of_3 else if passed_tfs row = 2 then Two_of_3
        else if passed_tfs row = 1 then One_of_3 else None_passed)"
    "mtf_score row = min 100 (py_round 1 (avg_fib_score prs
        + confluence_bonus (length prs) (all_in_golden (map snd (map (\<lambda>(p, r). (p, sr_zone r)) prs)))))"
    "sr_grade row = mtf_grade (mtf_score row)"
proof -
  show ne: "prs \<noteq> []" using assms by (auto simp: merge_symbol_def)
  have m: "map snd (map (\<lambda>(p, r). (p, sr_fib_score r)) prs) = map (\<lambda>pr. sr_fib_score (snd pr)) prs"
    by (induction prs) auto
  have f: "length (filter (\<lambda>s. s \<ge> mfs) (map (\<lambda>pr. sr_fib_score (snd pr)) prs))
      = length (filter (\<lambda>pr. sr_fib_score (snd pr) \<ge> mfs) prs)"
    by (induction prs) auto
  from assms ne have r: "row = scan_row.extend
      ((case map_of prs ''6mo'' of Some r \<Rightarrow> r | None \<Rightarrow> snd (hd prs))
         \<lparr> sr_grade := mtf_grade (min 100 (py_round 1 (avg_fib_score prs
        + confluence_bonus (length prs) (all_in_golden (map snd (map (\<lambda>(p, r). (p, sr_zone r)) prs)))))) \<rparr>)
      \<lparr> mtf_score = min 100 (py_round 1 (avg_fib_score prs
        + confluence_bonus (length prs) (all_in_golden (map snd (map (\<lambda>(p, r). (p, sr_zone r)) prs))))),
        mtf_confluence = (if length (filter (\<lambda>pr. sr_fib_score (snd pr) \<ge> mfs) prs) = 3 then Three_of_3
            else if length (filter (\<lambda>pr. sr_fib_score (snd pr) \<ge> mfs) prs) = 2 then Two_of_3
            else if length (filter (\<lambda>pr. sr_fib_score (snd pr) \<ge> mfs) prs) = 1 then One_of_3
            else None_passed),
        passed_tfs = length (filter (\<lambda>pr. sr_fib_score (snd pr) \<ge> mfs) prs),
        n_periods = length prs,
        score_3mo = map_of (map (\<lambda>(p, r). (p, sr_fib_score r)) prs) ''3mo'',
        score_6mo = map_of (map (\<lambda>(p, r). (p, sr_fib_score r)) prs) ''6mo'',
        score_1y = map_of (map (\<lambda>(p, r). (p, sr_fib_score r)) prs) ''1y'',
        zone_3mo = map_of (map (\<lambda>(p, r). (p, sr_zone r)) prs) ''3mo'',
        zone_6mo = map_of (map (\<lambda>(p, r). (p, sr_zone r)) prs) ''6mo'',
        zone_1y = map_of (map (\<lambda>(p, r). (p, sr_zone r)) prs) ''1y'' \<rparr>"
    unfolding merge_symbol_def Let_def avg_fib_score_def m f by simp
  show "n_periods row = length prs" by (simp add: r scan_row.defs)
  show "passed_tfs row = length (filter (\<lambda>pr. sr_fib_score (snd pr) \<ge> mfs) prs)"
    by (simp add: r scan_row.defs)
  show "mtf_confluence row = (if passed_tfs row = 3 then Three_of_3 else if passed_tfs row = 2 then Two_of_3
        else if passed_tfs row = 1 then One_of_3 else None_passed)"
    by (simp add: r scan_row.defs)
  show "mtf_score row = min 100 (py_round 1 (avg_fib_score prs
        + confluence_bonus (length prs) (all_in_golden (map snd (map (\<lambda>(p, r). (p, sr_zone r)) prs)))))"
    by (simp add: r scan_row.defs)
  show "sr_grade row = mtf_grade (mtf_score row)"
    by (simp add: r scan_row.defs)
qed

section \<open>Lemmas on pattern confidence\<close>

lemma py_int_nonneg: "0 \<le> x \<Longrightarrow> 0 \<le> py_int x"
  by (simp add: py_int_def)

lemma py_int_lower: "of_int k \<le> x \<Longrightarrow> k \<le> 0 \<Longrightarrow> k \<le> py_int x"
  by (auto simp: py_int_def le_floor_iff le_ceiling_iff intro: order_trans)

lemma capped: "(40::int) \<le> c \<Longrightarrow> 40 \<le> min 100 c \<and> min 100 c \<le> 100"
  by simp

lemma long_candle_conf:
  assumes "body_pct c0 > 0.6"
  shows "40 \<le> (let conf = min 100 (60 + py_int ((body_pct c0 - 0.6) * 100));
                   conf = (if vol0 > avg_vol * 1.2 then min 100 (conf + 15) else conf) in conf)"
    "(let conf = min 100 (60 + py_int ((body_pct c0 - 0.6) * 100));
          conf = (if vol0 > avg_vol * 1.2 then min 100 (conf + 15) else conf) in conf) \<le> (100::int)"
proof -
  have "0 \<le> (body_pct c0 - 0.6) * 100" using assms by simp
  then have "0 \<le> py_int ((body_pct c0 - 0.6) * 100)" by (rule py_int_nonneg)
  then show "40 \<le> (let conf = min 100 (60 + py_int ((body_pct c0 - 0.6) * 100));
                   conf = (if vol0 > avg_vol * 1.2 then min 100 (conf + 15) else conf) in conf)"
    "(let conf = min 100 (60 + py_int ((body_pct c0 - 0.6) * 100));
          conf = (if vol0 > avg_vol * 1.2 then min 100 (conf + 15) else conf) in conf) \<le> (100::int)"
    by (simp_all add: Let_def)
qed

lemma long_green_conf: "\<forall>p\<in>set (long_green c0 avg_body avg_vol vol0 idx). conf_ok p"
  using long_candle_conf[of c0 avg_vol vol0]
  by (simp add: long_green_def conf_ok_def Let_def)

lemma long_red_conf: "\<forall>p\<in>set (long_red c0 avg_body avg_vol vol0 idx). conf_ok p"
  using long_candle_conf[of c0 avg_vol vol0]
  by (simp add: long_red_def conf_ok_def Let_def)

lemma hammer_conf: "\<forall>p\<in>set (hammer c0 c1 idx). conf_ok p"
  by (simp add: hammer_def conf_ok_def Let_def)

lemma shooting_star_conf: "\<forall>p\<in>set (shooting_star c0 c1 idx). conf_ok p"
  by (simp add: shooting_star_def conf_ok_def Let_def)

lemma inverted_hammer_conf: "\<forall>p\<in>set (inverted_hammer c0 c1 idx). conf_ok p"
  by (simp add: inverted_hammer_def conf_ok_def Let_def)

lemma engulfing_conf:
  "40 \<le> (let size_ratio = body c0 / max (body c1) (1 / 10 ^ 9);
            conf = min 100 (65 + py_int ((size_ratio - 1) * 20));
            conf = (if vol0 > avg_vol * 1.3 then min 100 (conf + 10) else conf) in conf)"
  "(let size_ratio = body c0 / max (body c1) (1 / 10 ^ 9);
            conf = min 100 (65 + py_int ((size_ratio - 1) * 20));
            conf = (if vol0 > avg_vol * 1.3 then min 100 (conf + 10) else conf) in conf) \<le> (100::int)"
proof -
  define sr where "sr = body c0 / max (body c1) (1 / 10 ^ 9)"
  have "0 \<le> sr" unfolding sr_def by (simp add: body_def)
  then have "of_int (- 20) \<le> (sr - 1) * 20" by simp
  then have "- 20 \<le> py_int ((sr - 1) * 20)" by (rule py_int_lower) simp
  then show "40 \<le> (let size_ratio = body c0 / max (body c1) (1 / 10 ^ 9);
            conf = min 100 (65 + py_int ((size_ratio - 1) * 20));
            conf = (if vol0 > avg_vol * 1.3 then min 100 (conf + 10) else conf) in conf)"
  "(let size_ratio = body c0 / max (body c1) (1 / 10 ^ 9);
            conf = min 100 (65 + py_int ((size_ratio - 1) * 20));
            conf = (if vol0 > avg_vol * 1.3 then min 100 (conf + 10) else conf) in conf) \<le> (100::int)"
    unfolding sr_def[symmetric] Let_def by simp_all
qed

lemma bullish_engulfing_conf: "\<forall>p\<in>set (bullish_engulfing c0 c1 avg_vol vol0 idx). conf_ok p"
  using engulfing_conf[of c0 c1 avg_vol vol0]
  by (simp add: bullish_engulfing_def conf_ok_def Let_def)

lemma bearish_engulfing_conf: "\<forall>p\<in>set (bearish_engulfing c0 c1 avg_vol vol0 idx). conf_ok p"
  using engulfing_conf[of c0 c1 avg_vol vol0]
  by (simp add: bearish_engulfing_def conf_ok_def Let_def)

lemma morning_star_conf: "\<forall>p\<in>set (morning_star c0 c1 c2 avg_vol vol0 idx). conf_ok p"
  by (simp add: morning_star_def conf_ok_def Let_def)

lemma evening_star_conf: "\<forall>p\<in>set (evening_star c0 c1 c2 avg_vol vol0 idx). conf_ok p"
  by (simp add: evening_star_def conf_ok_def Let_def)

lemma doji_conf: "\<forall>p\<in>set (doji c0 c1 avg_body idx). conf_ok p"
  by (simp add: doji_def conf_ok_def Let_def)

lemma three_white_soldiers_conf: "\<forall>p\<in>set (three_white_soldiers c0 c1 c2 avg_body idx). conf_ok p"
  by (simp add: three_white_soldiers_def conf_ok_def)

lemma three_black_crows_conf: "\<forall>p\<in>set (three_black_crows c0 c1 c2 avg_body idx). conf_ok p"
  by (simp add: three_black_crows_def conf_ok_def)

lemma long_upper_shadow_conf: "\<forall>p\<in>set (long_upper_shadow bars c0 avg_range idx). conf_ok p"
  by (simp add: long_upper_shadow_def conf_ok_def Let_def)

lemma tweezer_top_conf: "\<forall>p\<in>set (tweezer_top c0 c1 idx). conf_ok p"
  by (simp add: tweezer_top_def conf_ok_def Let_def)

lemma tweezer_bottom_conf: "\<forall>p\<in>set (tweezer_bottom c0 c1 idx). conf_ok p"
  by (simp add: tweezer_bottom_def conf_ok_def Let_def)

lemmas rule_conf = long_green_conf long_red_conf hammer_conf shooting_star_conf inverted_hammer_conf
  bullish_engulfing_conf bearish_engulfing_conf morning_star_conf evening_star_conf doji_conf
  three_white_soldiers_conf three_black_crows_conf long_upper_shadow_conf tweezer_top_conf
  tweezer_bottom_conf

lemma detect_patterns_conf: "\<forall>p\<in>set (detect_patterns_full df). conf_ok p"
proof (cases "length (cf_bars df) < 3")
  case True
  then show ?thesis by (simp add: detect_patterns_full_def)
next
  case False
  show ?thesis
  proof (cases "get_candle (cf_bars df) 0")
    case None
    then show ?thesis by (simp add: detect_patterns_full_def Let_def)
  next
    case c0: (Some c0)
    show ?thesis
    proof (cases "get_candle (cf_bars df) 1")
      case None
      then show ?thesis by (simp add: detect_patterns_full_def Let_def c0)
    next
      case c1: (Some c1)
      show ?thesis
      proof (cases "get_candle (cf_bars df) 2")
        case None
        then show ?thesis by (simp add: detect_patterns_full_def Let_def c0 c1)
      next
        case c2: (Some c2)
        show ?thesis
          unfolding detect_patterns_full_def Let_def c0 c1 c2
          using False by (simp add: rule_conf ball_Un)
      qed
    qed
  qed
qed

section \<open>Claims\<close>

subsection \<open>C2: the Fibonacci zones partition the swing range\<close>




subsection \<open>C3: the stop-loss lies on the losing side of the price\<close>

text \<open>
  The claim as stated also covers the target calculator, which detects no trend and does
  not compare its stop-loss with the price it is given. Counterexample: on the rising
  frame, with a quoted price of 95 (below the last close), the calculator succeeds and
  puts the stop-loss at 96.15, above the price.
\<close>

lemma rising_frame_at_95:
  "calculate_price_targets rising_frame 95 =
     Inr \<lparr> buy_low = Val 99, buy_high = Val 101, tg_stop_loss = Val 96.15,
           tp1 = Val 92.7, tp2 = Val 91.55, tp3 = Val 112,
           trailing_stop = Val 91.2, risk_amount_pct = Val 1.21, risk_reward = Val 0.5,
           fibonacci = [NaN, NaN, NaN, NaN, NaN, NaN, NaN],
           support_levels = [100], resistance_levels = [112] \<rparr>"
  by code_simp

theorem target_stop_loss_counterexample:
  "sorted_wrt (<) (pf_close rising_frame)
   \<and> (\<exists>t. calculate_price_targets rising_frame 95 = Inr t
          \<and> tg_stop_loss t = Val 96.15 \<and> \<not> nlt (tg_stop_loss t) (Val 95))"
proof (intro conjI)
  show "sorted_wrt (<) (pf_close rising_frame)" by (simp add: rising_frame_def)
  show "\<exists>t. calculate_price_targets rising_frame 95 = Inr t
          \<and> tg_stop_loss t = Val 96.15 \<and> \<not> nlt (tg_stop_loss t) (Val 95)"
    by (intro exI conjI, rule rising_frame_at_95) simp_all
qed

text \<open>
  Claim C3, amended. Whenever the single-timeframe scan or the intraday scan succeeds, its
  stop-loss is a number strictly below the last close when the detected trend is up and
  strictly above it when the trend is down. The target calculator detects no trend; when
  it succeeds with an ATR of at least 0.01 / 1.5 and the price it is given is not below
  the low of its buy zone, its stop-loss is strictly below that price.
\<close>

theorem stop_loss_correct_side:
  "((scan_one f = Some r \<or> scan_intraday f = Some r) \<longrightarrow>
      (\<exists>s. lv_stop_loss r = Val s
         \<and> (if lv_is_uptrend r then s < sf_current f else sf_current f < s)))
   \<and> (calculate_price_targets df cur = Inr t \<and> 0.01 \<le> effective_atr df cur * 1.5
        \<and> nle (buy_low t) (Val cur) \<longrightarrow> nlt (tg_stop_loss t) (Val cur))"
proof (intro conjI impI)
  assume "scan_one f = Some r \<or> scan_intraday f = Some r"
  then show "\<exists>s. lv_stop_loss r = Val s
         \<and> (if lv_is_uptrend r then s < sf_current f else sf_current f < s)"
    by (rule scanner_stop_loss_side)
next
  assume h: "calculate_price_targets df cur = Inr t \<and> 0.01 \<le> effective_atr df cur * 1.5
        \<and> nle (buy_low t) (Val cur)"
  then obtain s bl where "tg_stop_loss t = Val s" "buy_low t = Val bl" "s + 0.01 \<le> bl"
    using targets_stop_below[of df cur t] by blast
  with h show "nlt (tg_stop_loss t) (Val cur)" by simp
qed

text \<open>
  Witness: the downtrend frame in the swing scan (stop-loss 51 above the close 50), and
  the rising frame in the calculator at its last close 112 (stop-loss 95.64).
\<close>

lemma falling_frame_scan:
  "scan_one falling_frame = Some \<lparr> lv_is_uptrend = False, lv_zone = Some (0.618, 0.786),
      lv_stop_loss = Val 51, lv_risk_pct = Val 2 \<rparr>"
  by (simp add: falling_frame_def scan_one_def Let_def detect_trend_def
      swing_stop_loss_def fp_def py_min_def py_max_def py_round_def round_half_even_def
      locate_zone_def fib_zones_def in_zone_def)

lemma rising_frame_at_112:
  "calculate_price_targets rising_frame 112 =
     Inr \<lparr> buy_low = Val 99, buy_high = Val 101, tg_stop_loss = Val 95.64,
           tp1 = Val 144.72, tp2 = Val 161.08, tp3 = Val 112,
           trailing_stop = Val 107.52, risk_amount_pct = Val 14.61, risk_reward = Val 0.5,
           fibonacci = [NaN, NaN, NaN, NaN, NaN, NaN, NaN],
           support_levels = [100], resistance_levels = [112] \<rparr>"
  by code_simp

theorem stop_loss_correct_side_witness:
  "(\<exists>s. Val 51 = Val s \<and> sf_current falling_frame < s)
   \<and> nlt (Val 95.64) (Val 112)"
  using stop_loss_correct_side[of falling_frame
      "\<lparr> lv_is_uptrend = False, lv_zone = Some (0.618, 0.786),
         lv_stop_loss = Val 51, lv_risk_pct = Val 2 \<rparr>"
      rising_frame 112
      "\<lparr> buy_low = Val 99, buy_high = Val 101, tg_stop_loss = Val 95.64,
           tp1 = Val 144.72, tp2 = Val 161.08, tp3 = Val 112,
           trailing_stop = Val 107.52, risk_amount_pct = Val 14.61, risk_reward = Val 0.5,
           fibonacci = [NaN, NaN, NaN, NaN, NaN, NaN, NaN],
           support_levels = [100], resistance_levels = [112] \<rparr>"]
  by (simp add: falling_frame_scan rising_frame_at_112 effective_atr_def rising_frame_def)

subsection \<open>C4: ordering of stop-loss, buy zone and targets\<close>

text \<open>
  The calculator has no direction input and compares none of its levels with the price.
  Counterexamples to the ordering as stated: on the rising low-priced frame, at its last
  close, rounding to two decimals makes the stop-loss equal to the buy-zone low; on the
  rising frame with a quoted price of 95, the buy zone (99 to 101) lies above the price
  and the targets fall below the buy zone, the second below the first.
\<close>

lemma penny_frame_at_close:
  "calculate_price_targets penny_frame 0.114 =
     Inr \<lparr> buy_low = Val 0.1, buy_high = Val 0.1, tg_stop_loss = Val 0.1,
           tp1 = Val 0.14, tp2 = Val 0.16, tp3 = Val 0.11,
           trailing_stop = Val 0.11, risk_amount_pct = Val 12.28, risk_reward = Val 0.538,
           fibonacci = [NaN, NaN, NaN, NaN, NaN, NaN, NaN],
           support_levels = [0.1], resistance_levels = [0.11] \<rparr>"
  by code_simp

theorem targets_ordering_counterexample:
  "sorted_wrt (<) (pf_close penny_frame) \<and> last (pf_close penny_frame) = 0.114
   \<and> (\<exists>t. calculate_price_targets penny_frame 0.114 = Inr t
          \<and> \<not> nlt (tg_stop_loss t) (buy_low t))
   \<and> sorted_wrt (<) (pf_close rising_frame)
   \<and> (\<exists>t. calculate_price_targets rising_frame 95 = Inr t
          \<and> \<not> nlt (buy_high t) (tp1 t) \<and> \<not> nlt (tp1 t) (tp2 t))"
proof (intro conjI)
  show "sorted_wrt (<) (pf_close penny_frame)" by (simp add: penny_frame_def)
  show "last (pf_close penny_frame) = 0.114" by (simp add: penny_frame_def)
  show "\<exists>t. calculate_price_targets penny_frame 0.114 = Inr t
          \<and> \<not> nlt (tg_stop_loss t) (buy_low t)"
    by (intro exI conjI, rule penny_frame_at_close) simp
  show "sorted_wrt (<) (pf_close rising_frame)" by (simp add: rising_frame_def)
  show "\<exists>t. calculate_price_targets rising_frame 95 = Inr t
          \<and> \<not> nlt (buy_high t) (tp1 t) \<and> \<not> nlt (tp1 t) (tp2 t)"
    by (intro exI conjI, rule rising_frame_at_95) simp_all
qed

text \<open>
  Claim C4, amended. When the calculator succeeds on a frame of positive closes at a
  positive price, with an ATR of at least 0.01 / 1.5 (so that rounding to two decimals
  cannot close the gap) and with the price above the buy zone (the uptrend assumption:
  \<open>buy_zone.high < current_price\<close>), then
  \<open>stop_loss < buy_zone.low \<le> buy_zone.high < targets[0] < targets[1]\<close>.
\<close>

theorem targets_ordering_above_buy_zone:
  assumes "calculate_price_targets df cur = Inr t"
    and "\<forall>c\<in>set (pf_close df). 0 < c" and "0 < cur"
    and "0.01 \<le> effective_atr df cur * 1.5"
    and "nlt (buy_high t) (Val cur)"
  shows "\<exists>s bl bh t1 t2. tg_stop_loss t = Val s \<and> buy_low t = Val bl \<and> buy_high t = Val bh
           \<and> tp1 t = Val t1 \<and> tp2 t = Val t2
           \<and> s < bl \<and> bl \<le> bh \<and> bh < t1 \<and> t1 < t2"
proof -
  obtain s bl bh t1 t2 where l:
    "tg_stop_loss t = Val s" "buy_low t = Val bl" "buy_high t = Val bh" "tp1 t = Val t1" "tp2 t = Val t2"
    "s + 0.01 \<le> bl" "bl \<le> bh" "bh < cur \<Longrightarrow> bh < t1 \<and> t1 < t2"
    by (rule targets_levels[OF assms(1-4)]) blast
  from assms(5) l(3) have "bh < cur" by simp
  with l(8) have "bh < t1" "t1 < t2" by simp_all
  moreover from l(6) have "s < bl" by simp
  ultimately show ?thesis using l(1-5,7) by blast
qed

text \<open>Witness: the rising frame at its last close 112.\<close>

theorem targets_ordering_above_buy_zone_witness:
  "\<exists>s bl bh t1 t2. Val 95.64 = Val s \<and> Val 99 = Val bl \<and> Val 101 = Val bh
           \<and> Val 144.72 = Val t1 \<and> Val 161.08 = Val t2
           \<and> s < bl \<and> bl \<le> bh \<and> bh < t1 \<and> t1 < t2"
  using targets_ordering_above_buy_zone[OF rising_frame_at_112]
  by (simp add: effective_atr_def rising_frame_def)

subsection \<open>C7: one progress call per task\<close>

text \<open>
  Claim C7. The calls to the progress callback happen in the thread that runs the loop
  over \<^verbatim>\<open>as_completed\<close>, one iteration per finished future; the only freedom of the thread
  pool is the order \<open>completed\<close> in which the futures finish, a permutation of the
  submitted tasks. For every such order and whatever each task did (returned a row,
  returned nothing, raised), a scan over \<open>n\<close> tasks calls the callback exactly \<open>n\<close>
  times, the \<open>k\<close>-th call (counting from 1) with the arguments \<open>(k, n, label)\<close> of the
  \<open>k\<close>-th finished task: the symbol in the single-timeframe and day-trade scans, the
  symbol with its period in the multi-timeframe scan.
\<close>

theorem progress_callback_once_per_task:
  "(mset completed = mset [0..<length symbols] \<longrightarrow>
      length (fst (run_fibonacci_scan (Some symbols) min_score min_rr True outcome completed))
        = length symbols
      \<and> (\<forall>k<length symbols.
            fst (run_fibonacci_scan (Some symbols) min_score min_rr True outcome completed) ! k
              = (Suc k, length symbols, symbols ! (completed ! k)))
      \<and> fst (run_daytrade_scan (Some symbols) min_score min_rr True outcome completed)
          = fst (run_fibonacci_scan (Some symbols) min_score min_rr True outcome completed))
   \<and> (mset completed = mset [0..<length (List.product symbols periods)] \<longrightarrow>
      length (fst (run_multi_timeframe_scan (Some symbols) (Some periods) min_score min_rr True
                outcome' completed))
        = length symbols * length periods
      \<and> (\<forall>k<length symbols * length periods.
            fst (run_multi_timeframe_scan (Some symbols) (Some periods) min_score min_rr True
                outcome' completed) ! k
              = (Suc k, length symbols * length periods,
                 fst (List.product symbols periods ! (completed ! k)) @ '' (''
                   @ snd (List.product symbols periods ! (completed ! k)) @ '')'')))"
proof (intro conjI impI allI)
  assume p: "mset completed = mset [0..<length symbols]"
  have len: "length completed = length symbols" by (rule perm_length[OF p])
  have log: "fst (run_fibonacci_scan (Some symbols) min_score min_rr True outcome completed)
      = map (\<lambda>(k, i). (Suc k, length symbols, symbols ! i)) (enumerate 0 completed)"
    by (simp add: run_fibonacci_scan_def Let_def scan_loop_calls)
  show "length (fst (run_fibonacci_scan (Some symbols) min_score min_rr True outcome completed))
        = length symbols"
    by (simp add: log len)
  show "fst (run_daytrade_scan (Some symbols) min_score min_rr True outcome completed)
          = fst (run_fibonacci_scan (Some symbols) min_score min_rr True outcome completed)"
    by (simp add: run_fibonacci_scan_def run_daytrade_scan_def Let_def)
  fix k assume "k < length symbols"
  then have k: "k < length completed" by (simp add: len)
  show "fst (run_fibonacci_scan (Some symbols) min_score min_rr True outcome completed) ! k
              = (Suc k, length symbols, symbols ! (completed ! k))"
    unfolding log by (rule nth_enumerate_map[OF k])
next
  assume p: "mset completed = mset [0..<length (List.product symbols periods)]"
  have len: "length completed = length (List.product symbols periods)" by (rule perm_length[OF p])
  have lp: "length (List.product symbols periods) = length symbols * length periods"
    by (rule length_product)
  have log: "fst (run_multi_timeframe_scan (Some symbols) (Some periods) min_score min_rr True
                outcome' completed)
      = map (\<lambda>(k, i). (Suc k, length symbols * length periods,
               fst (List.product symbols periods ! i) @ '' (''
                 @ snd (List.product symbols periods ! i) @ '')''))
          (enumerate 0 completed)"
    by (simp add: run_multi_timeframe_scan_def Let_def mtf_loop_calls)
  show "length (fst (run_multi_timeframe_scan (Some symbols) (Some periods) min_score min_rr True
                outcome' completed))
        = length symbols * length periods"
    by (simp add: log len)
  fix k assume "k < length symbols * length periods"
  then have k: "k < length completed" by (simp add: len)
  show "fst (run_multi_timeframe_scan (Some symbols) (Some periods) min_score min_rr True
                outcome' completed) ! k
              = (Suc k, length symbols * length periods,
                 fst (List.product symbols periods ! (completed ! k)) @ '' (''
                   @ snd (List.product symbols periods ! (completed ! k)) @ '')'')"
    unfolding log by (rule nth_enumerate_map[OF k])
qed

text \<open>
  Witness: five symbols, of which the second returns nothing and the fourth raises; the
  three rows score 80, 50 and 30. With a minimum score of 55 the callback is called five
  times and the table holds the one row that scored 80.
\<close>

definition five_symbols :: "string list" where
  "five_symbols = [''PTT'', ''AOT'', ''SCB'', ''KBANK'', ''BBL'']"

definition row_of :: "string \<Rightarrow> real \<Rightarrow> scan_row" where
  "row_of name score = \<lparr> sr_symbol = name, sr_fib_score = score, sr_grade = ''B'',
      sr_zone = ''61.8'' @ en_dash @ ''78.6%'', sr_signal_score = 50, sr_risk_reward = 2 \<rparr>"

definition five_outcome :: "nat \<Rightarrow> scan_row outcome" where
  "five_outcome i =
     (if i = 0 then Returned (row_of ''PTT'' 80)
      else if i = 1 then ReturnedNone
      else if i = 2 then Returned (row_of ''SCB'' 50)
      else if i = 3 then Raised
      else Returned (row_of ''BBL'' 30))"

lemma five_perm: "mset [2, 0, 4, 1, 3] = mset [0..<length five_symbols]"
  by (simp add: five_symbols_def upt_rec numeral_nat)

theorem progress_callback_once_per_task_witness:
  "length (fst (run_fibonacci_scan (Some five_symbols) 55 1 True five_outcome [2, 0, 4, 1, 3])) = 5
   \<and> fst (run_fibonacci_scan (Some five_symbols) 55 1 True five_outcome [2, 0, 4, 1, 3]) ! 3
       = (4, 5, ''AOT'')
   \<and> map sr_symbol (snd (run_fibonacci_scan (Some five_symbols) 55 1 True five_outcome [2, 0, 4, 1, 3]))
       = [''PTT'']"
proof -
  note t = progress_callback_once_per_task[of "[2, 0, 4, 1, 3]" five_symbols 55 1 five_outcome "[]"]
  from t five_perm
  have 1: "length (fst (run_fibonacci_scan (Some five_symbols) 55 1 True five_outcome [2, 0, 4, 1, 3]))
      = length five_symbols"
    and 2: "\<forall>k<length five_symbols.
       fst (run_fibonacci_scan (Some five_symbols) 55 1 True five_outcome [2, 0, 4, 1, 3]) ! k
         = (Suc k, length five_symbols, five_symbols ! ([2, 0, 4, 1, 3] ! k))"
    by blast+
  have 3: "map sr_symbol (snd (run_fibonacci_scan (Some five_symbols) 55 1 True five_outcome [2, 0, 4, 1, 3]))
       = [''PTT'']"
    by (simp add: run_fibonacci_scan_def Let_def five_symbols_def five_outcome_def row_of_def)
  from 1 2[rule_format, of 3] 3 show ?thesis
    by (simp add: five_symbols_def)
qed

subsection \<open>C6: the multi-timeframe merge\<close>

text \<open>
  The score of a merged row is not the bare sum of average and bonus: line 348 rounds the
  sum to one decimal and caps it at 100. Counterexample: three periods, all in the golden
  zone, with scores 90, 92 and 94; the average is 92, the bonus 15, and the merged score
  is 100, not 107.
\<close>

lemma merge_symbol_total: "prs \<noteq> [] \<Longrightarrow> \<exists>row. merge_symbol mfs prs = Some row"
  by (simp add: merge_symbol_def Let_def)

theorem mtf_score_counterexample:
  "list_all (\<lambda>pr. golden_name (sr_zone (snd pr))) three_golden
   \<and> length three_golden = 3
   \<and> avg_fib_score three_golden + 15 = 107
   \<and> (\<exists>row. merge_symbol 40 three_golden = Some row \<and> mtf_score row = 100)"
proof (intro conjI)
  show g: "list_all (\<lambda>pr. golden_name (sr_zone (snd pr))) three_golden"
    by (simp add: three_golden_def period_row_def golden_name_def)
  show "length three_golden = 3" by (simp add: three_golden_def)
  show a: "avg_fib_score three_golden + 15 = 107"
    by (simp add: avg_fib_score_def three_golden_def period_row_def)
  obtain row where row: "merge_symbol 40 three_golden = Some row"
    using merge_symbol_total[of three_golden 40] by (auto simp: three_golden_def)
  have "all_in_golden (map snd (map (\<lambda>(p, r). (p, sr_zone r)) three_golden))"
    using g by (intro all_in_golden_golden) (simp add: list_all_iff)
  then have "mtf_score row = min 100 (py_round 1 (avg_fib_score three_golden + 15))"
    using merge_symbol_fields(5)[OF row] by (simp add: confluence_bonus_def three_golden_def)
  also have "\<dots> = 100"
    unfolding a by (simp add: py_round_def round_half_even_def)
  finally show "\<exists>row. merge_symbol 40 three_golden = Some row \<and> mtf_score row = 100"
    using row by blast
qed

text \<open>
  Claim C6, amended. For each symbol with at least one evaluated period, \<open>mtf_score\<close> is
  the average of the per-period fib scores plus a confluence bonus, rounded to one
  decimal and capped at 100. The bonus is 15 when all evaluated periods land in the golden
  zone and at least 3 periods were evaluated, 10 when exactly 2 were and both land in the
  golden zone, and 0 for a single period; when some period lands in the 0--23.6 zone, in
  the 78.6--100 zone or out of range, the bonus is 5 for 2 or more periods and 0 for one.
  \<open>passed_tfs\<close> counts the periods whose fib score reaches the minimum score, and the
  confluence label names that count (for exactly 2 such periods, \<open>passed_tfs = 2\<close> with the
  2-of-3 label). The merged row is graded by \<open>mtf_score\<close>: A+ from 80, A from 70, B+ from
  58, B from 45, otherwise C.
\<close>

theorem mtf_merge_score_and_confluence:
  assumes "merge_symbol mfs prs = Some row"
  shows "n_periods row = length prs
    \<and> ((\<forall>pr\<in>set prs. golden_name (sr_zone (snd pr))) \<longrightarrow>
          mtf_score row = min 100 (py_round 1 (avg_fib_score prs
            + (if length prs \<ge> 3 then 15 else if length prs \<ge> 2 then 10 else 0))))
    \<and> ((\<exists>pr\<in>set prs. outer_name (sr_zone (snd pr))) \<longrightarrow>
          mtf_score row = min 100 (py_round 1 (avg_fib_score prs
            + (if length prs \<ge> 2 then 5 else 0))))
    \<and> passed_tfs row = length (filter (\<lambda>pr. sr_fib_score (snd pr) \<ge> mfs) prs)
    \<and> mtf_confluence row =
         (if passed_tfs row = 3 then Three_of_3 else if passed_tfs row = 2 then Two_of_3
          else if passed_tfs row = 1 then One_of_3 else None_passed)
    \<and> sr_grade row =
         (if mtf_score row \<ge> 80 then ''A+'' else if mtf_score row \<ge> 70 then ''A''
          else if mtf_score row \<ge> 58 then ''B+'' else if mtf_score row \<ge> 45 then ''B''
          else ''C'')"
proof (intro conjI impI)
  note f = merge_symbol_fields[OF assms]
  show "n_periods row = length prs" by (rule f(2))
  show "passed_tfs row = length (filter (\<lambda>pr. sr_fib_score (snd pr) \<ge> mfs) prs)" by (rule f(3))
  show "mtf_confluence row =
         (if passed_tfs row = 3 then Three_of_3 else if passed_tfs row = 2 then Two_of_3
          else if passed_tfs row = 1 then One_of_3 else None_passed)" by (rule f(4))
  show "sr_grade row =
         (if mtf_score row \<ge> 80 then ''A+'' else if mtf_score row \<ge> 70 then ''A''
          else if mtf_score row \<ge> 58 then ''B+'' else if mtf_score row \<ge> 45 then ''B''
          else ''C'')"
    unfolding f(6) mtf_grade_def by (rule refl)
  {
    assume "\<forall>pr\<in>set prs. golden_name (sr_zone (snd pr))"
    from all_in_golden_golden[OF this]
    show "mtf_score row = min 100 (py_round 1 (avg_fib_score prs
            + (if length prs \<ge> 3 then 15 else if length prs \<ge> 2 then 10 else 0)))"
      unfolding f(5) by (simp add: confluence_bonus_def)
  }
  {
    assume "\<exists>pr\<in>set prs. outer_name (sr_zone (snd pr))"
    from all_in_golden_outer[OF this]
    show "mtf_score row = min 100 (py_round 1 (avg_fib_score prs
            + (if length prs \<ge> 2 then 5 else 0)))"
      unfolding f(5) by (simp add: confluence_bonus_def)
  }
qed

text \<open>
  Witness: three periods with scores 60, 70 and 35 against a minimum of 55, the last one
  in the 0--23.6 zone. Two periods pass, the label is the 2-of-3 one, the average 55 plus
  the bonus 5 gives 60, grade B+.
\<close>

theorem mtf_merge_score_and_confluence_witness:
  "\<exists>row. merge_symbol 55 two_of_three = Some row
     \<and> n_periods row = 3 \<and> passed_tfs row = 2 \<and> mtf_confluence row = Two_of_3
     \<and> mtf_score row = 60 \<and> sr_grade row = ''B+''"
proof -
  obtain row where row: "merge_symbol 55 two_of_three = Some row"
    using merge_symbol_total[of two_of_three 55] by (auto simp: two_of_three_def)
  have o: "\<exists>pr\<in>set two_of_three. outer_name (sr_zone (snd pr))"
    by (simp add: two_of_three_def period_row_def outer_name_def)
  have a: "avg_fib_score two_of_three = 55"
    by (simp add: avg_fib_score_def two_of_three_def period_row_def)
  have l: "length two_of_three = 3" by (simp add: two_of_three_def)
  have p: "length (filter (\<lambda>pr. sr_fib_score (snd pr) \<ge> 55) two_of_three) = 2"
    by (simp add: two_of_three_def period_row_def)
  have r: "py_round (Suc 0) 60 = 60"
    by (simp add: py_round_def round_half_even_def)
  from mtf_merge_score_and_confluence[OF row] o
  have "n_periods row = 3 \<and> passed_tfs row = 2 \<and> mtf_confluence row = Two_of_3
     \<and> mtf_score row = 60 \<and> sr_grade row = ''B+''"
    unfolding a l p by (simp add: r)
  with row show ?thesis by blast
qed

text \<open>
  The substring test of line 341 also accepts the names of the two zones next to the
  golden zone, 23.6--38.2 and 61.8--78.6, which contain \<^verbatim>\<open>38\<close> and \<^verbatim>\<open>61\<close>: three periods
  in those zones get the bonus of 15 although none is in the golden zone.
\<close>

lemma neighbour_zones_get_golden_bonus:
  "list_all (\<lambda>pr. \<not> golden_name (sr_zone (snd pr))) three_neighbour
   \<and> (\<exists>row. merge_symbol 40 three_neighbour = Some row \<and> mtf_score row = 65)"
proof (intro conjI)
  show "list_all (\<lambda>pr. \<not> golden_name (sr_zone (snd pr))) three_neighbour"
    unfolding three_neighbour_def period_row_def golden_name_def zone_names
    by (simp add: en_dash_def star_def)
  obtain row where row: "merge_symbol 40 three_neighbour = Some row"
    using merge_symbol_total[of three_neighbour 40] by (auto simp: three_neighbour_def)
  have g: "all_in_golden (map snd (map (\<lambda>(p, r). (p, sr_zone r)) three_neighbour))"
    unfolding three_neighbour_def period_row_def all_in_golden_def zone_names
    by (simp add: en_dash_def star_def)
  have a: "avg_fib_score three_neighbour = 50"
    by (simp add: avg_fib_score_def three_neighbour_def period_row_def)
  have "mtf_score row = min 100 (py_round 1 (50 + 15))"
    using merge_symbol_fields(5)[OF row] g unfolding a
    by (simp add: confluence_bonus_def three_neighbour_def)
  also have "\<dots> = 65" by (simp add: py_round_def round_half_even_def)
  finally show "\<exists>row. merge_symbol 40 three_neighbour = Some row \<and> mtf_score row = 65"
    using row by blast
qed

subsection \<open>C9: support and resistance levels\<close>





subsection \<open>C10: pattern confidence lies between 40 and 100\<close>

text \<open>
  Claim C10. Every pattern returned by the full candlestick pattern detector has a
  confidence between 40 and 100, whatever the frame. The lower bound is met by a Doji
  without context; the engulfing rules stay above it because the size ratio is never
  negative.
\<close>

theorem pattern_confidence_range:
  "\<forall>p\<in>set (detect_patterns_full df). 40 \<le> p_confidence p \<and> p_confidence p \<le> 100"
  using detect_patterns_conf[of df] by (simp add: conf_ok_def)

text \<open>
  Witness: the frame ending in a Doji (confidence 40) and the frame ending in a long green
  candle on high volume (confidence 100).
\<close>

lemma doji_frame_patterns:
  "detect_patterns_full doji_frame =
     [\<lparr> p_pattern = ''Doji'', p_type = NEUTRAL, p_strength = WEAK, p_confidence = 40,
        p_bar_index = 2, p_price = 10.21 \<rparr>]"
  by code_simp

lemma rally_frame_patterns:
  "detect_patterns_full rally_frame =
     [\<lparr> p_pattern = ''Long Green Candle'', p_type = BUY, p_strength = STRONG, p_confidence = 100,
        p_bar_index = 2, p_price = 11.5 \<rparr>]"
  by code_simp

theorem pattern_confidence_range_witness:
  "map p_confidence (detect_patterns_full doji_frame) = [40]
   \<and> map p_confidence (detect_patterns_full rally_frame) = [100]
   \<and> 40 \<le> p_confidence (hd (detect_patterns_full doji_frame))
   \<and> p_confidence (hd (detect_patterns_full rally_frame)) \<le> 100"
  using pattern_confidence_range[of doji_frame] pattern_confidence_range[of rally_frame]
  by (simp add: doji_frame_patterns rally_frame_patterns)


end
